theory Spec2Isabelle
  imports Main "HOL-Library.Sublist" "HOL-Library.Char_ord" "HOL-Library.List_Lexorder"
begin

section \<open>Shared types\<close>

text \<open>
  Errors are values. \<open>Failure\<close> is an error handed over by a collaborator (object
  resolver, user resolver, comment resolver, revision store, JSON decoder, site
  configuration reader, database driver); \<open>DatabaseError e\<close> is
  \<^verbatim>\<open>errors.InternalServer(reason.DatabaseError).WithError(e).WithStack()\<close>.
\<close>

datatype error = Failure string | DatabaseError error

text \<open>
  The logger is global state: a log is the list of entries written so far, an entry
  the format (or first argument) with the remaining arguments.
\<close>

datatype log_arg = ArgErr error | ArgStr string

datatype log_entry = Log string "log_arg list"

type_synonym log = "log_entry list"

text \<open>
  A \<^verbatim>\<open>time.Time\<close> is kept as whole seconds counted from Go's zero instant
  (January 1 of year 1, UTC), so that the zero value of the type is \<open>0\<close>;
  \<^verbatim>\<open>Unix()\<close> shifts it to the Unix epoch. Nanoseconds and locations play no
  part in the code modelled here.
\<close>

type_synonym time = int

definition Unix :: "time \<Rightarrow> int" where
  "Unix t = t - 62135596800"

definition IsZero :: "time \<Rightarrow> bool" where
  "IsZero t = (t = 0)"

section \<open>The tag entity\<close>

text \<open>
  \<^verbatim>\<open>entity.Tag\<close>, with the columns that the repository, the activity service and
  the data model of the specification name. \<open>Status\<close> is an integer code, as are
  all counters; the identifiers are strings on the Go side.
\<close>

record Tag =
  ID :: string
  CreatedAt :: time
  MainTagID :: int
  MainTagSlugName :: string
  SlugName :: string
  DisplayName :: string
  OriginalText :: string
  QuestionCount :: int
  Status :: int
  Recommend :: bool
  Reserved :: bool
  RevisionID :: string

text \<open>The zero value \<^verbatim>\<open>entity.Tag{}\<close>.\<close>

definition Tag_zero :: Tag where
  "Tag_zero = \<lparr>ID = [], CreatedAt = 0, MainTagID = 0, MainTagSlugName = [],
     SlugName = [], DisplayName = [], OriginalText = [], QuestionCount = 0, Status = 0,
     Recommend = False, Reserved = False, RevisionID = []\<rparr>"

section \<open>Activity timeline service\<close>

subsection \<open>Entities and view models\<close>

record Activity =
  act_ID :: string
  act_CreatedAt :: time
  act_CancelledAt :: time
  act_UserID :: string
  act_ObjectID :: string
  act_ActivityType :: int
  act_Cancelled :: int
  act_RevisionID :: int

record ObjInfo =
  obj_Title :: string
  obj_ObjectType :: string
  obj_QuestionID :: string
  obj_AnswerID :: string

record UserBasicInfo =
  usr_Username :: string
  usr_DisplayName :: string

record Comment =
  cmt_ParsedText :: string

record Revision =
  rev_ObjectID :: string
  rev_Content :: string

record TagSimpleInfoForRevision =
  tsi_SlugName :: string

record QuestionWithTagsRevision =
  q_Title :: string
  q_OriginalText :: string
  q_Tags :: "TagSimpleInfoForRevision list"

record Answer =
  ans_OriginalText :: string

record GetObjectTimelineReq =
  req_ObjectID :: string
  req_ShowVote :: bool

record ActObjectInfo =
  aoi_Title :: string
  aoi_ObjectType :: string
  aoi_QuestionID :: string
  aoi_AnswerID :: string

record ActObjectTimeline =
  item_ActivityID :: string
  item_RevisionID :: string
  item_CreatedAt :: int
  item_Cancelled :: bool
  item_CancelledAt :: int
  item_ObjectID :: string
  item_ObjectType :: string
  item_ActivityType :: string
  item_Username :: string
  item_UserDisplayName :: string
  item_Comment :: string

record GetObjectTimelineResp =
  resp_ObjectInfo :: ActObjectInfo
  resp_Timeline :: "ActObjectTimeline list"

record GetObjectTimelineDetailReq =
  req_OldRevisionID :: string
  req_NewRevisionID :: string

record ObjectTimelineDetail =
  det_Title :: string
  det_Tags :: "string list"
  det_OriginalText :: string

record GetObjectTimelineDetailResp =
  resp_OldRevision :: ObjectTimelineDetail
  resp_NewRevision :: ObjectTimelineDetail

subsection \<open>Collaborators\<close>

text \<open>
  \<^verbatim>\<open>ActivityService\<close> holds its collaborators; each is the function the service
  calls on it, returning \<open>Inl\<close> for a non-nil \<^verbatim>\<open>err\<close>. The last fields are
  the package-level items the service uses and that are declared outside the two
  source files: the activity-code table \<^verbatim>\<open>config.ID2KeyMapping\<close>, the constant
  \<^verbatim>\<open>entity.ActivityCancelled\<close>, \<^verbatim>\<open>converter.IntToString\<close>, and
  \<^verbatim>\<open>json.Unmarshal\<close> at each of the three target types.
\<close>

record ActivityService =
  activityRepo_GetObjectAllActivity :: "string \<Rightarrow> bool \<Rightarrow> error + Activity list"
  userCommon_GetUserBasicInfoByID :: "string \<Rightarrow> error + (UserBasicInfo \<times> bool)"
  objectInfoService_GetInfo :: "string \<Rightarrow> error + ObjInfo"
  commentCommonService_GetComment :: "string \<Rightarrow> error + Comment"
  revisionService_GetRevision :: "string \<Rightarrow> error + Revision"
  config_ID2KeyMapping :: "int \<rightharpoonup> string"
  entity_ActivityCancelled :: int
  converter_IntToString :: "int \<Rightarrow> string"
  json_Unmarshal_Question :: "string \<Rightarrow> error + QuestionWithTagsRevision"
  json_Unmarshal_Answer :: "string \<Rightarrow> error + Answer"
  json_Unmarshal_Tag :: "string \<Rightarrow> error + Tag"

text \<open>
  Modelled from the spec: the object-type names of package \<^verbatim>\<open>constant\<close>, which is
  not among the source files. The specification names the types "comment", "question",
  "answer" and "tag".
\<close>

definition CommentObjectType :: string where
  "CommentObjectType = ''comment''"

definition QuestionObjectType :: string where
  "QuestionObjectType = ''question''"

definition AnswerObjectType :: string where
  "AnswerObjectType = ''answer''"

definition TagObjectType :: string where
  "TagObjectType = ''tag''"

subsection \<open>Library functions\<close>

text \<open>
  \<^verbatim>\<open>strings.Cut(s, sep)\<close>: the text before and after the first occurrence of
  \<open>sep\<close> and whether it occurs; without an occurrence, \<open>s\<close>, the empty string
  and false.
\<close>

fun Cut :: "string \<Rightarrow> string \<Rightarrow> string \<times> string \<times> bool" where
  "Cut [] sep = ([], [], sep = [])"
| "Cut (c # cs) sep =
     (if prefix sep (c # cs) then ([], drop (length sep) (c # cs), True)
      else (case Cut cs sep of (before, after, found) \<Rightarrow> (c # before, after, found)))"

text \<open>Indexing a Go map: a missing key reads as the zero value.\<close>

definition map_index :: "(int \<rightharpoonup> string) \<Rightarrow> int \<Rightarrow> string" where
  "map_index m k = (case m k of None \<Rightarrow> [] | Some v \<Rightarrow> v)"

subsection \<open>formatActivity\<close>

definition formatActivity :: "string \<Rightarrow> bool \<times> string" where
  "formatActivity activityType =
     (if activityType = ''voted_up'' \<or> activityType = ''voted_down''
         \<or> activityType = ''accepted'' then (True, [])
      else if activityType = ''vote_up'' then (False, ''upvote'')
      else if activityType = ''vote_down'' then (False, ''downvote'')
      else (False, activityType))"

subsection \<open>GetObjectTimeline\<close>

text \<open>
  One pass of the loop body over an activity. \<open>Inr None\<close> is \<^verbatim>\<open>continue\<close>,
  \<open>Inl err\<close> is \<^verbatim>\<open>return nil, err\<close>, and \<open>Inr (Some item)\<close> reaches the
  \<^verbatim>\<open>append\<close> at the end of the body.
\<close>

definition timeline_item ::
  "ActivityService \<Rightarrow> Activity \<Rightarrow> log \<Rightarrow> (error + ActObjectTimeline option) \<times> log" where
  "timeline_item as act lg =
     (let item = \<lparr>item_ActivityID = act_ID act,
                  item_RevisionID = converter_IntToString as (act_RevisionID act),
                  item_CreatedAt = Unix (act_CreatedAt act),
                  item_Cancelled = (act_Cancelled act = entity_ActivityCancelled as),
                  item_CancelledAt = 0,
                  item_ObjectID = act_ObjectID act,
                  item_ObjectType = [], item_ActivityType = [], item_Username = [],
                  item_UserDisplayName = [], item_Comment = []\<rparr>;
          item = (if item_Cancelled item
                  then item\<lparr>item_CancelledAt := Unix (act_CancelledAt act)\<rparr> else item);
          cut = Cut (map_index (config_ID2KeyMapping as) (act_ActivityType act)) ''.'';
          item = item\<lparr>item_ObjectType := fst cut, item_ActivityType := fst (snd cut)\<rparr>;
          fmt = formatActivity (item_ActivityType item)
      in if fst fmt then (Inr None, lg)
         else
           let item = item\<lparr>item_ActivityType := snd fmt\<rparr>
           in case userCommon_GetUserBasicInfoByID as (act_UserID act) of
                Inl err \<Rightarrow> (Inl err, lg)
              | Inr (userBasicInfo, exist) \<Rightarrow>
                  let item = (if exist
                        then item\<lparr>item_Username := usr_Username userBasicInfo,
                                  item_UserDisplayName := usr_DisplayName userBasicInfo\<rparr>
                        else item)
                  in if item_ObjectType item = CommentObjectType
                     then (case commentCommonService_GetComment as (item_ObjectID item) of
                             Inl err \<Rightarrow> (Inr (Some item), lg @ [Log [] [ArgErr err]])
                           | Inr comment \<Rightarrow>
                               (Inr (Some (item\<lparr>item_Comment := cmt_ParsedText comment\<rparr>)), lg))
                     else (Inr (Some item), lg))"

text \<open>The \<^verbatim>\<open>for ... range activityList\<close> loop, the timeline built so far as accumulator.\<close>

fun timeline_loop ::
  "ActivityService \<Rightarrow> Activity list \<Rightarrow> ActObjectTimeline list \<Rightarrow> log
     \<Rightarrow> (error + ActObjectTimeline list) \<times> log" where
  "timeline_loop as [] timeline lg = (Inr timeline, lg)"
| "timeline_loop as (act # rest) timeline lg =
     (case timeline_item as act lg of
        (Inl err, lg') \<Rightarrow> (Inl err, lg')
      | (Inr None, lg') \<Rightarrow> timeline_loop as rest timeline lg'
      | (Inr (Some item), lg') \<Rightarrow> timeline_loop as rest (timeline @ [item]) lg')"

definition GetObjectTimeline ::
  "ActivityService \<Rightarrow> GetObjectTimelineReq \<Rightarrow> log \<Rightarrow> (error + GetObjectTimelineResp) \<times> log" where
  "GetObjectTimeline as req lg =
     (case objectInfoService_GetInfo as (req_ObjectID req) of
        Inl err \<Rightarrow> (Inl err, lg)
      | Inr objInfo \<Rightarrow>
          let info = \<lparr>aoi_Title = obj_Title objInfo, aoi_ObjectType = obj_ObjectType objInfo,
                      aoi_QuestionID = obj_QuestionID objInfo,
                      aoi_AnswerID = obj_AnswerID objInfo\<rparr>
          in (case activityRepo_GetObjectAllActivity as (req_ObjectID req) (req_ShowVote req) of
                Inl err \<Rightarrow> (Inl err, lg)
              | Inr activityList \<Rightarrow>
                  (case timeline_loop as activityList [] lg of
                     (Inl err, lg') \<Rightarrow> (Inl err, lg')
                   | (Inr timeline, lg') \<Rightarrow>
                       (Inr \<lparr>resp_ObjectInfo = info, resp_Timeline = timeline\<rparr>, lg'))))"

subsection \<open>GetObjectTimelineDetail\<close>

definition getOneObjectDetail ::
  "ActivityService \<Rightarrow> string \<Rightarrow> log \<Rightarrow> (error + ObjectTimelineDetail) \<times> log" where
  "getOneObjectDetail as revisionID lg =
     (let resp = \<lparr>det_Title = [], det_Tags = [], det_OriginalText = []\<rparr>
      in case revisionService_GetRevision as revisionID of
           Inl err \<Rightarrow> (Inl err, lg)
         | Inr revision \<Rightarrow>
             (case objectInfoService_GetInfo as (rev_ObjectID revision) of
                Inl err \<Rightarrow> (Inl err, lg)
              | Inr objInfo \<Rightarrow>
                  if obj_ObjectType objInfo = QuestionObjectType then
                    (case json_Unmarshal_Question as (rev_Content revision) of
                       Inl err \<Rightarrow> (Inr resp, lg @ [Log ''revision parsing error %s'' [ArgErr err]])
                     | Inr data \<Rightarrow>
                         (Inr (resp\<lparr>det_Tags := det_Tags resp @ map tsi_SlugName (q_Tags data),
                                    det_Title := q_Title data,
                                    det_OriginalText := q_OriginalText data\<rparr>), lg))
                  else if obj_ObjectType objInfo = AnswerObjectType then
                    (case json_Unmarshal_Answer as (rev_Content revision) of
                       Inl err \<Rightarrow> (Inr resp, lg @ [Log ''revision parsing error %s'' [ArgErr err]])
                     | Inr data \<Rightarrow>
                         (Inr (resp\<lparr>det_Title := obj_Title objInfo,
                                    det_OriginalText := ans_OriginalText data\<rparr>), lg))
                  else if obj_ObjectType objInfo = TagObjectType then
                    (case json_Unmarshal_Tag as (rev_Content revision) of
                       Inl err \<Rightarrow> (Inr resp, lg @ [Log ''revision parsing error %s'' [ArgErr err]])
                     | Inr data \<Rightarrow>
                         (Inr (resp\<lparr>det_Title := SlugName data,
                                    det_OriginalText := OriginalText data\<rparr>), lg))
                  else (Inr resp,
                        lg @ [Log ''unknown object type %s'' [ArgStr (obj_ObjectType objInfo)]])))"

definition GetObjectTimelineDetail ::
  "ActivityService \<Rightarrow> GetObjectTimelineDetailReq \<Rightarrow> log
     \<Rightarrow> (error + GetObjectTimelineDetailResp) \<times> log" where
  "GetObjectTimelineDetail as req lg =
     (case getOneObjectDetail as (req_OldRevisionID req) lg of
        (Inl err, lg1) \<Rightarrow> (Inl err, lg1)
      | (Inr old, lg1) \<Rightarrow>
          (case getOneObjectDetail as (req_NewRevisionID req) lg1 of
             (Inl err, lg2) \<Rightarrow> (Inl err, lg2)
           | (Inr new, lg2) \<Rightarrow> (Inr \<lparr>resp_OldRevision = old, resp_NewRevision = new\<rparr>, lg2)))"

text \<open>The label that the loop reads off an activity: the part of its key after the first dot.\<close>

definition activity_label :: "ActivityService \<Rightarrow> Activity \<Rightarrow> string" where
  "activity_label as act =
     fst (snd (Cut (map_index (config_ID2KeyMapping as) (act_ActivityType act)) ''.''))"

section \<open>The relational store as the tag repository uses it\<close>

text \<open>
  The repository talks to the store through a query builder. This section gives the
  builder calls that the repository makes their meaning over a table held as a list of
  rows: conditions, ordering, limits, the conditions and assignments that the mapper
  derives from a bean (a struct handed over as example), and the statements
  \<^verbatim>\<open>Find\<close>, \<^verbatim>\<open>Get\<close>, \<^verbatim>\<open>FindAndCount\<close> and \<^verbatim>\<open>Update\<close>.
  Timestamps that the mapper maintains by itself for columns tagged so in the entity
  declaration are outside this model: the declaration is not part of the sources.
\<close>

subsection \<open>Columns and values\<close>

datatype column =
  Col_id | Col_created_at | Col_main_tag_id | Col_main_tag_slug_name | Col_slug_name
  | Col_display_name | Col_original_text | Col_question_count | Col_status
  | Col_recommend | Col_reserved | Col_revision_id

definition all_columns :: "column list" where
  "all_columns = [Col_id, Col_created_at, Col_main_tag_id, Col_main_tag_slug_name,
     Col_slug_name, Col_display_name, Col_original_text, Col_question_count, Col_status,
     Col_recommend, Col_reserved, Col_revision_id]"

datatype val = VStr string | VInt int | VBool bool | VTime time

fun col_val :: "column \<Rightarrow> Tag \<Rightarrow> val" where
  "col_val Col_id t = VStr (ID t)"
| "col_val Col_created_at t = VTime (CreatedAt t)"
| "col_val Col_main_tag_id t = VInt (MainTagID t)"
| "col_val Col_main_tag_slug_name t = VStr (MainTagSlugName t)"
| "col_val Col_slug_name t = VStr (SlugName t)"
| "col_val Col_display_name t = VStr (DisplayName t)"
| "col_val Col_original_text t = VStr (OriginalText t)"
| "col_val Col_question_count t = VInt (QuestionCount t)"
| "col_val Col_status t = VInt (Status t)"
| "col_val Col_recommend t = VBool (Recommend t)"
| "col_val Col_reserved t = VBool (Reserved t)"
| "col_val Col_revision_id t = VStr (RevisionID t)"

text \<open>Writing the column \<open>c\<close> of a row from the same column of a bean.\<close>

fun col_copy :: "column \<Rightarrow> Tag \<Rightarrow> Tag \<Rightarrow> Tag" where
  "col_copy Col_id bean t = t\<lparr>ID := ID bean\<rparr>"
| "col_copy Col_created_at bean t = t\<lparr>CreatedAt := CreatedAt bean\<rparr>"
| "col_copy Col_main_tag_id bean t = t\<lparr>MainTagID := MainTagID bean\<rparr>"
| "col_copy Col_main_tag_slug_name bean t = t\<lparr>MainTagSlugName := MainTagSlugName bean\<rparr>"
| "col_copy Col_slug_name bean t = t\<lparr>SlugName := SlugName bean\<rparr>"
| "col_copy Col_display_name bean t = t\<lparr>DisplayName := DisplayName bean\<rparr>"
| "col_copy Col_original_text bean t = t\<lparr>OriginalText := OriginalText bean\<rparr>"
| "col_copy Col_question_count bean t = t\<lparr>QuestionCount := QuestionCount bean\<rparr>"
| "col_copy Col_status bean t = t\<lparr>Status := Status bean\<rparr>"
| "col_copy Col_recommend bean t = t\<lparr>Recommend := Recommend bean\<rparr>"
| "col_copy Col_reserved bean t = t\<lparr>Reserved := Reserved bean\<rparr>"
| "col_copy Col_revision_id bean t = t\<lparr>RevisionID := RevisionID bean\<rparr>"

fun is_zero :: "val \<Rightarrow> bool" where
  "is_zero (VStr s) = (s = [])"
| "is_zero (VInt i) = (i = 0)"
| "is_zero (VBool b) = (\<not> b)"
| "is_zero (VTime t) = IsZero t"

fun is_bool :: "val \<Rightarrow> bool" where
  "is_bool (VBool b) = True"
| "is_bool v = False"

subsection \<open>LIKE\<close>

text \<open>
  The SQL operator \<^verbatim>\<open>s LIKE p\<close>: \<^verbatim>\<open>%\<close> in the pattern stands for any run of
  characters, \<^verbatim>\<open>_\<close> for any one character, every other character for itself.
  Escape characters and collations that fold case differ between stores and are not
  modelled.
\<close>

fun sql_like :: "string \<Rightarrow> string \<Rightarrow> bool" where
  "sql_like [] s = (s = [])"
| "sql_like (p # ps) [] = (p = CHR ''%'' \<and> sql_like ps [])"
| "sql_like (p # ps) (c # cs) =
     (if p = CHR ''%'' then sql_like ps (c # cs) \<or> sql_like (p # ps) cs
      else (p = CHR ''_'' \<or> p = c) \<and> sql_like ps cs)"

text \<open>
  The argument that \<^verbatim>\<open>builder.Like{col, v}\<close> binds: \<open>v\<close> itself when it starts or
  ends with \<^verbatim>\<open>%\<close>, otherwise \<open>v\<close> between two \<^verbatim>\<open>%\<close>. The builder reads the
  first and last character of \<open>v\<close>, so it is only called with a non-empty \<open>v\<close>.
\<close>

definition like_arg :: "string \<Rightarrow> string" where
  "like_arg v =
     (if v \<noteq> [] \<and> (hd v = CHR ''%'' \<or> last v = CHR ''%'') then v
      else ''%'' @ v @ ''%'')"

subsection \<open>Conditions\<close>

text \<open>
  \<open>builder_Eq\<close> also stands for the texts \<^verbatim>\<open>"slug_name = ?"\<close> and
  \<^verbatim>\<open>"main_tag_id = 0"\<close>; \<open>Sql_LIKE\<close> for \<^verbatim>\<open>"slug_name LIKE ?"\<close> with its
  argument; \<open>Sql_empty\<close> for the empty text of \<^verbatim>\<open>Where("")\<close>; \<open>builder_In\<close>
  for a column and the list of values handed to \<^verbatim>\<open>In\<close> (no row matches an empty list).
\<close>

datatype cond =
  builder_Eq column val
  | builder_Like column string
  | builder_Or cond cond
  | builder_In column "string list"
  | Sql_LIKE column string
  | Sql_empty

fun holds :: "cond \<Rightarrow> Tag \<Rightarrow> bool" where
  "holds (builder_Eq c v) t = (col_val c t = v)"
| "holds (builder_Like c v) t =
     (case col_val c t of VStr s \<Rightarrow> sql_like (like_arg v) s | _ \<Rightarrow> False)"
| "holds (builder_Or a b) t = (holds a t \<or> holds b t)"
| "holds (builder_In c vs) t = (col_val c t \<in> set (map VStr vs))"
| "holds (Sql_LIKE c p) t = (case col_val c t of VStr s \<Rightarrow> sql_like p s | _ \<Rightarrow> False)"
| "holds Sql_empty t = True"

subsection \<open>Ordering\<close>

datatype direction = ASC | DESC

text \<open>
  Values of one column are compared within their kind: numbers and times by size,
  booleans with false first, texts character by character. (Rows never hold values of
  two kinds in one column; the comparison across kinds only makes the order total.)
  Identifiers are texts on the Go side and are compared as such; the statements of
  this theory that speak of an order speak of the order of slug names.
\<close>

fun val_le :: "val \<Rightarrow> val \<Rightarrow> bool" where
  "val_le (VStr a) (VStr b) = (a \<le> b)"
| "val_le (VStr a) v = True"
| "val_le (VInt a) (VStr b) = False"
| "val_le (VInt a) (VInt b) = (a \<le> b)"
| "val_le (VInt a) v = True"
| "val_le (VBool a) (VBool b) = (a \<longrightarrow> b)"
| "val_le (VBool a) (VTime b) = True"
| "val_le (VBool a) v = False"
| "val_le (VTime a) (VTime b) = (a \<le> b)"
| "val_le (VTime a) v = False"

text \<open>\<^verbatim>\<open>ORDER BY\<close> over a list of keys: the first key on which two rows differ decides.\<close>

fun row_le :: "(column \<times> direction) list \<Rightarrow> Tag \<Rightarrow> Tag \<Rightarrow> bool" where
  "row_le [] a b = True"
| "row_le ((c, d) # ks) a b =
     (if col_val c a = col_val c b then row_le ks a b
      else (case d of ASC \<Rightarrow> val_le (col_val c a) (col_val c b)
                    | DESC \<Rightarrow> val_le (col_val c b) (col_val c a)))"

text \<open>
  Sorting by insertion. Rows that agree on every key keep the order of the table, as
  do all rows when there is no key; a store promises no order among such rows.
\<close>

fun insert_row :: "(column \<times> direction) list \<Rightarrow> Tag \<Rightarrow> Tag list \<Rightarrow> Tag list" where
  "insert_row ks x [] = [x]"
| "insert_row ks x (y # ys) =
     (if row_le ks x y then x # y # ys else y # insert_row ks x ys)"

definition sort_rows :: "(column \<times> direction) list \<Rightarrow> Tag list \<Rightarrow> Tag list" where
  "sort_rows ks rows = foldr (insert_row ks) rows []"

subsection \<open>Sessions\<close>

text \<open>
  A session collects what the builder calls add to a statement: the conditions (joined
  by AND), the ordering keys in the order of the calls, the limit with its offset, and
  the columns that must be used even when the bean holds their zero value.
\<close>

record session =
  conds :: "cond list"
  orders :: "(column \<times> direction) list"
  limitN :: "int option"
  limitStart :: int
  mustCols :: "column list"
  allUseBool :: bool

definition NewSession :: session where
  "NewSession = \<lparr>conds = [], orders = [], limitN = None, limitStart = 0, mustCols = [],
     allUseBool = False\<rparr>"

definition Where :: "cond \<Rightarrow> session \<Rightarrow> session" where
  "Where c s = s\<lparr>conds := conds s @ [c]\<rparr>"

definition In :: "column \<Rightarrow> string list \<Rightarrow> session \<Rightarrow> session" where
  "In c vs s = Where (builder_In c vs) s"

definition Limit :: "int \<Rightarrow> int \<Rightarrow> session \<Rightarrow> session" where
  "Limit n start s = s\<lparr>limitN := Some n, limitStart := start\<rparr>"

definition Asc :: "column \<Rightarrow> session \<Rightarrow> session" where
  "Asc c s = s\<lparr>orders := orders s @ [(c, ASC)]\<rparr>"

definition Desc :: "column \<Rightarrow> session \<Rightarrow> session" where
  "Desc c s = s\<lparr>orders := orders s @ [(c, DESC)]\<rparr>"

definition OrderBy :: "(column \<times> direction) list \<Rightarrow> session \<Rightarrow> session" where
  "OrderBy ks s = s\<lparr>orders := orders s @ ks\<rparr>"

definition MustCols :: "column list \<Rightarrow> session \<Rightarrow> session" where
  "MustCols cs s = s\<lparr>mustCols := mustCols s @ cs\<rparr>"

definition UseBool :: "column list \<Rightarrow> session \<Rightarrow> session" where
  "UseBool cs s = (if cs \<noteq> [] then MustCols cs s else s\<lparr>allUseBool := True\<rparr>)"

text \<open>
  The columns of a bean that the mapper uses: a column named by \<^verbatim>\<open>MustCols\<close> or
  \<^verbatim>\<open>UseBool\<close> always; a boolean column otherwise only when all booleans are
  asked for; any other column when the bean holds a non-zero value in it.
\<close>

definition used_col :: "session \<Rightarrow> Tag \<Rightarrow> column \<Rightarrow> bool" where
  "used_col s bean c =
     (c \<in> set (mustCols s)
      \<or> (if is_bool (col_val c bean) then allUseBool s else \<not> is_zero (col_val c bean)))"

text \<open>The conditions that a bean adds to a query: equality on each column used.\<close>

definition bean_conds :: "session \<Rightarrow> Tag option \<Rightarrow> cond list" where
  "bean_conds s bean =
     (case bean of None \<Rightarrow> []
      | Some b \<Rightarrow> map (\<lambda>c. builder_Eq c (col_val c b)) (filter (used_col s b) all_columns))"

definition matches :: "cond list \<Rightarrow> Tag \<Rightarrow> bool" where
  "matches cs t = list_all (\<lambda>c. holds c t) cs"

text \<open>
  \<^verbatim>\<open>LIMIT n OFFSET start\<close>. For a limit or an offset that is not positive, where
  mapper versions and stores differ, the model returns no row and skips no row.
\<close>

definition window :: "session \<Rightarrow> Tag list \<Rightarrow> Tag list" where
  "window s rows =
     (case limitN s of None \<Rightarrow> rows
      | Some n \<Rightarrow> take (nat n) (drop (nat (limitStart s)) rows))"

definition selected :: "session \<Rightarrow> Tag option \<Rightarrow> Tag list \<Rightarrow> Tag list" where
  "selected s bean rows =
     sort_rows (orders s) (filter (matches (conds s @ bean_conds s bean)) rows)"

subsection \<open>Statements\<close>

text \<open>
  The engine answers a statement with an error or runs it on the table. \<open>db_error\<close>
  is that error, when the engine is failing.
\<close>

definition Find :: "error option \<Rightarrow> session \<Rightarrow> Tag option \<Rightarrow> Tag list \<Rightarrow> error + Tag list" where
  "Find db_error s bean rows =
     (case db_error of Some e \<Rightarrow> Inl e
      | None \<Rightarrow> Inr (window s (selected s bean rows)))"

definition FindAndCount ::
  "error option \<Rightarrow> session \<Rightarrow> Tag option \<Rightarrow> Tag list \<Rightarrow> error + (Tag list \<times> int)" where
  "FindAndCount db_error s bean rows =
     (case db_error of Some e \<Rightarrow> Inl e
      | None \<Rightarrow> Inr (window s (selected s bean rows), int (length (selected s bean rows))))"

text \<open>
  \<^verbatim>\<open>Get(bean)\<close> reads the first selected row into the bean and reports whether there
  was one; the bean's own columns count as conditions, and it is left as it was when no
  row is found.
\<close>

definition Get :: "error option \<Rightarrow> session \<Rightarrow> Tag \<Rightarrow> Tag list \<Rightarrow> error + (Tag \<times> bool)" where
  "Get db_error s bean rows =
     (case db_error of Some e \<Rightarrow> Inl e
      | None \<Rightarrow>
          (case selected s (Some bean) rows of
             [] \<Rightarrow> Inr (bean, False)
           | row # _ \<Rightarrow> Inr (row, True)))"

text \<open>
  \<^verbatim>\<open>Update(bean)\<close> writes the used columns of the bean into every row that meets the
  session's conditions, and returns the new table with the number of rows met.
\<close>

definition assign :: "session \<Rightarrow> Tag \<Rightarrow> Tag \<Rightarrow> Tag" where
  "assign s bean t = foldr (\<lambda>c. col_copy c bean) (filter (used_col s bean) all_columns) t"

definition Update ::
  "error option \<Rightarrow> session \<Rightarrow> Tag \<Rightarrow> Tag list \<Rightarrow> error + (int \<times> Tag list)" where
  "Update db_error s bean rows =
     (case db_error of Some e \<Rightarrow> Inl e
      | None \<Rightarrow>
          Inr (int (length (filter (matches (conds s)) rows)),
               map (\<lambda>t. if matches (conds s) t then assign s bean t else t) rows))"

text \<open>
  Modelled from the spec: \<^verbatim>\<open>pager.Help\<close> of package \<^verbatim>\<open>pager\<close>, which is not
  among the source files. The specification calls \<^verbatim>\<open>GetTagPage\<close> a paged listing
  with the order of the session; the model takes page \<open>page\<close> of size \<open>pageSize\<close>
  of the selected rows and counts all of them.
\<close>

definition pager_Help ::
  "int \<Rightarrow> int \<Rightarrow> Tag \<Rightarrow> session \<Rightarrow> error option \<Rightarrow> Tag list \<Rightarrow> error + (Tag list \<times> int)" where
  "pager_Help page pageSize rowElement s db_error rows =
     FindAndCount db_error (Limit pageSize ((page - 1) * pageSize) s) (Some rowElement) rows"

section \<open>Tag repository\<close>

record SiteWriteResp =
  RequiredTag :: bool

text \<open>
  \<^verbatim>\<open>tagRepo\<close>: the engine behind \<^verbatim>\<open>data.DB\<close>, as the error with which it answers
  statements when it is failing, and what the site configuration reader returns. The
  two status codes \<^verbatim>\<open>entity.TagStatusAvailable\<close> and
  \<^verbatim>\<open>entity.TagStatusDeleted\<close> are declared outside the source files and are
  carried along as parameters.
\<close>

record tagRepo =
  data_DB_error :: "error option"
  siteInfoService_GetSiteWrite :: "error + SiteWriteResp"
  entity_TagStatusAvailable :: int
  entity_TagStatusDeleted :: int

text \<open>What the operations act on: the rows of the tag table and the log.\<close>

record world =
  tags :: "Tag list"
  logs :: log

definition tagRecommendStatus :: "tagRepo \<Rightarrow> world \<Rightarrow> bool \<times> world" where
  "tagRecommendStatus tr w =
     (case siteInfoService_GetSiteWrite tr of
        Inl err \<Rightarrow>
          (False, w\<lparr>logs := logs w @ [Log ''siteInfoService.GetSiteWrite error'' [ArgErr err]]\<rparr>)
      | Inr tagconfig \<Rightarrow> (RequiredTag tagconfig, w))"

text \<open>
  Two steps that every listing repeats. \<open>find_into\<close>: the list starts empty, the
  statement fills it, and an error of the statement is wrapped.
  \<open>mask_recommend\<close>: the loop that clears \<^verbatim>\<open>Recommend\<close> on the rows read when
  \<^verbatim>\<open>tagRecommendStatus\<close> is false.
\<close>

definition find_into :: "error + Tag list \<Rightarrow> Tag list \<times> error option" where
  "find_into r = (case r of Inl err \<Rightarrow> ([], Some (DatabaseError err)) | Inr rows \<Rightarrow> (rows, None))"

definition mask_recommend :: "bool \<Rightarrow> Tag list \<Rightarrow> Tag list" where
  "mask_recommend status tagList =
     (if \<not> status then map (\<lambda>tag. tag\<lparr>Recommend := False\<rparr>) tagList else tagList)"

definition GetTagListByIDs ::
  "tagRepo \<Rightarrow> string list \<Rightarrow> world \<Rightarrow> (Tag list \<times> error option) \<times> world" where
  "GetTagListByIDs tr ids w =
     (let session = In Col_id ids NewSession;
          session = Where (builder_Eq Col_status (VInt (entity_TagStatusAvailable tr))) session;
          session = OrderBy [(Col_recommend, DESC), (Col_reserved, DESC), (Col_id, DESC)] session;
          found = find_into (Find (data_DB_error tr) session None (tags w));
          status = tagRecommendStatus tr w
      in ((mask_recommend (fst status) (fst found), snd found), snd status))"

definition GetTagBySlugName ::
  "tagRepo \<Rightarrow> string \<Rightarrow> world \<Rightarrow> (Tag option \<times> bool \<times> error option) \<times> world" where
  "GetTagBySlugName tr slugName w =
     (let session = Where (builder_Eq Col_slug_name (VStr slugName)) NewSession;
          session = Where (builder_Eq Col_status (VInt (entity_TagStatusAvailable tr))) session
      in case Get (data_DB_error tr) session Tag_zero (tags w) of
           Inl err \<Rightarrow> ((None, False, Some (DatabaseError err)), w)
         | Inr (tagInfo, exist) \<Rightarrow>
             (let status = tagRecommendStatus tr w;
                  tagInfo = (if \<not> fst status then tagInfo\<lparr>Recommend := False\<rparr> else tagInfo)
              in ((Some tagInfo, exist, None), snd status)))"

definition GetTagListByName ::
  "tagRepo \<Rightarrow> string \<Rightarrow> int \<Rightarrow> bool \<Rightarrow> world \<Rightarrow> (Tag list \<times> error option) \<times> world" where
  "GetTagListByName tr name limit hasReserved w =
     (let cond = Tag_zero;
          session = Where Sql_empty NewSession;
          session = (if name \<noteq> [] then Where (Sql_LIKE Col_slug_name (name @ ''%'')) session
                     else session);
          cond = (if name \<noteq> [] then cond else cond\<lparr>Recommend := True\<rparr>);
          session = Where (builder_Eq Col_status (VInt (entity_TagStatusAvailable tr))) session;
          session = Asc Col_slug_name (Limit limit 0 session);
          cond = (if \<not> hasReserved then cond\<lparr>Reserved := False\<rparr> else cond);
          session = (if \<not> hasReserved then UseBool [Col_recommend, Col_reserved] session
                     else UseBool [Col_recommend] session);
          session = OrderBy [(Col_recommend, DESC), (Col_reserved, DESC), (Col_id, DESC)] session;
          found = find_into (Find (data_DB_error tr) session (Some cond) (tags w));
          status = tagRecommendStatus tr w
      in ((mask_recommend (fst status) (fst found), snd found), snd status))"

definition GetRecommendTagList ::
  "tagRepo \<Rightarrow> world \<Rightarrow> (Tag list \<times> error option) \<times> world" where
  "GetRecommendTagList tr w =
     (let cond = Tag_zero;
          session = Where Sql_empty NewSession;
          cond = cond\<lparr>Recommend := True\<rparr>;
          session = Asc Col_slug_name session;
          session = UseBool [Col_recommend] session;
          found = find_into (Find (data_DB_error tr) session (Some cond) (tags w));
          status = tagRecommendStatus tr w
      in ((mask_recommend (fst status) (fst found), snd found), snd status))"

definition GetReservedTagList ::
  "tagRepo \<Rightarrow> world \<Rightarrow> (Tag list \<times> error option) \<times> world" where
  "GetReservedTagList tr w =
     (let cond = Tag_zero;
          session = Where Sql_empty NewSession;
          cond = cond\<lparr>Reserved := True\<rparr>;
          session = Asc Col_slug_name session;
          session = UseBool [Col_reserved] session;
          found = find_into (Find (data_DB_error tr) session (Some cond) (tags w));
          status = tagRecommendStatus tr w
      in ((mask_recommend (fst status) (fst found), snd found), snd status))"

definition GetTagListByNames ::
  "tagRepo \<Rightarrow> string list \<Rightarrow> world \<Rightarrow> (Tag list \<times> error option) \<times> world" where
  "GetTagListByNames tr names w =
     (let session = UseBool [Col_recommend, Col_reserved] (In Col_slug_name names NewSession);
          session = OrderBy [(Col_recommend, DESC), (Col_reserved, DESC), (Col_id, DESC)] session;
          found = find_into (Find (data_DB_error tr) session None (tags w));
          status = tagRecommendStatus tr w
      in ((mask_recommend (fst status) (fst found), snd found), snd status))"

definition RemoveTag :: "tagRepo \<Rightarrow> string \<Rightarrow> world \<Rightarrow> error option \<times> world" where
  "RemoveTag tr tagID w =
     (let session = Where (builder_Eq Col_id (VStr tagID)) NewSession
      in case Update (data_DB_error tr) session
                (Tag_zero\<lparr>Status := entity_TagStatusDeleted tr\<rparr>) (tags w) of
           Inl err \<Rightarrow> (Some (DatabaseError err), w)
         | Inr (n, rows) \<Rightarrow> (None, w\<lparr>tags := rows\<rparr>))"

definition UpdateTagQuestionCount ::
  "tagRepo \<Rightarrow> string \<Rightarrow> int \<Rightarrow> world \<Rightarrow> error option \<times> world" where
  "UpdateTagQuestionCount tr tagID questionCount w =
     (let cond = Tag_zero\<lparr>QuestionCount := questionCount\<rparr>;
          session = MustCols [Col_question_count] (Where (builder_Eq Col_id (VStr tagID)) NewSession)
      in case Update (data_DB_error tr) session cond (tags w) of
           Inl err \<Rightarrow> (Some (DatabaseError err), w)
         | Inr (n, rows) \<Rightarrow> (None, w\<lparr>tags := rows\<rparr>))"

definition GetTagByID ::
  "tagRepo \<Rightarrow> string \<Rightarrow> world \<Rightarrow> (Tag option \<times> bool \<times> error option) \<times> world" where
  "GetTagByID tr tagID w =
     (let session = Where (builder_Eq Col_id (VStr tagID)) NewSession;
          session = Where (builder_Eq Col_status (VInt (entity_TagStatusAvailable tr))) session
      in case Get (data_DB_error tr) session Tag_zero (tags w) of
           Inl err \<Rightarrow> ((None, False, Some (DatabaseError err)), w)
         | Inr (tag, exist) \<Rightarrow>
             (let status = tagRecommendStatus tr w;
                  tag = (if \<not> fst status then tag\<lparr>Recommend := False\<rparr> else tag)
              in ((Some tag, exist, None), snd status)))"

definition GetTagList ::
  "tagRepo \<Rightarrow> Tag \<Rightarrow> world \<Rightarrow> (Tag list \<times> error option) \<times> world" where
  "GetTagList tr tag w =
     (let session = Where (builder_Eq Col_status (VInt (entity_TagStatusAvailable tr))) NewSession;
          found = find_into (Find (data_DB_error tr) session (Some tag) (tags w));
          status = tagRecommendStatus tr w
      in ((mask_recommend (fst status) (fst found), snd found), snd status))"

text \<open>
  \<^verbatim>\<open>GetTagPage\<close> receives its filter by pointer and writes to it, so the filter is
  returned with the result: rows, total and error, then the filter as the caller finds
  it afterwards, then the world.
\<close>

definition GetTagPage ::
  "tagRepo \<Rightarrow> int \<Rightarrow> int \<Rightarrow> Tag \<Rightarrow> string \<Rightarrow> world
     \<Rightarrow> (Tag list \<times> int \<times> error option) \<times> Tag \<times> world" where
  "GetTagPage tr page pageSize tag queryCond w =
     (let session = NewSession;
          session = (if length (SlugName tag) > 0
                     then Where (builder_Or (builder_Like Col_slug_name (SlugName tag))
                                            (builder_Like Col_display_name (SlugName tag))) session
                     else session);
          tag = (if length (SlugName tag) > 0 then tag\<lparr>SlugName := []\<rparr> else tag);
          session = Where (builder_Eq Col_status (VInt (entity_TagStatusAvailable tr))) session;
          session = Where (builder_Eq Col_main_tag_id (VInt 0)) session;
          session = (if queryCond = ''popular'' then Desc Col_question_count session
                     else if queryCond = ''name'' then Asc Col_slug_name session
                     else if queryCond = ''newest'' then Desc Col_created_at session
                     else session);
          paged = (case pager_Help page pageSize tag session (data_DB_error tr) (tags w) of
                     Inl err \<Rightarrow> ([], 0, Some (DatabaseError err))
                   | Inr (rows, count) \<Rightarrow> (rows, count, None));
          status = tagRecommendStatus tr w
      in ((mask_recommend (fst status) (fst paged), snd paged), tag, snd status))"

subsection \<open>Patterns without wildcards\<close>

definition wildcard_free :: "string \<Rightarrow> bool" where
  "wildcard_free v = (CHR ''%'' \<notin> set v \<and> CHR ''_'' \<notin> set v)"


subsection \<open>Rows as read\<close>

text \<open>The row that a read of the repository returns for a stored row \<open>t\<close>.\<close>

definition read_of :: "tagRepo \<Rightarrow> world \<Rightarrow> Tag \<Rightarrow> Tag" where
  "read_of tr w t = (if fst (tagRecommendStatus tr w) then t else t\<lparr>Recommend := False\<rparr>)"


subsection \<open>Activities as shown\<close>

text \<open>
  Words for the statements about the timeline: whether the loop skips a label, the
  label it displays otherwise, whether an activity is displayed, whether the lookup of
  its user returns an error, and when a timeline entry is the entry of an activity.
\<close>

definition hidden_label :: "string \<Rightarrow> bool" where
  "hidden_label l = (l = ''voted_up'' \<or> l = ''voted_down'' \<or> l = ''accepted'')"

definition shown_label :: "string \<Rightarrow> string" where
  "shown_label l =
     (if l = ''vote_up'' then ''upvote'' else if l = ''vote_down'' then ''downvote'' else l)"

definition shown :: "ActivityService \<Rightarrow> Activity \<Rightarrow> bool" where
  "shown as act = (\<not> hidden_label (activity_label as act))"

definition user_fails :: "ActivityService \<Rightarrow> Activity \<Rightarrow> bool" where
  "user_fails as act = isl (userCommon_GetUserBasicInfoByID as (act_UserID act))"

definition renders :: "ActivityService \<Rightarrow> ActObjectTimeline \<Rightarrow> Activity \<Rightarrow> bool" where
  "renders as item act =
     (item_ActivityID item = act_ID act
      \<and> item_ActivityType item = shown_label (activity_label as act))"

section \<open>Concrete instances\<close>

subsection \<open>A question with four activities\<close>

text \<open>
  A vote received (hidden), a vote cast by a known user, a comment by a user who no
  longer exists and whose text cannot be loaded, and a cancelled edit.
\<close>

definition example_activities :: "Activity list" where
  "example_activities =
     [\<lparr>act_ID = ''a1'', act_CreatedAt = 62135596900, act_CancelledAt = 0, act_UserID = ''u1'',
       act_ObjectID = ''q1'', act_ActivityType = 1, act_Cancelled = 0, act_RevisionID = 0\<rparr>,
      \<lparr>act_ID = ''a2'', act_CreatedAt = 62135596901, act_CancelledAt = 0, act_UserID = ''u1'',
       act_ObjectID = ''q1'', act_ActivityType = 2, act_Cancelled = 0, act_RevisionID = 0\<rparr>,
      \<lparr>act_ID = ''a3'', act_CreatedAt = 62135596902, act_CancelledAt = 0, act_UserID = ''u2'',
       act_ObjectID = ''c1'', act_ActivityType = 3, act_Cancelled = 0, act_RevisionID = 0\<rparr>,
      \<lparr>act_ID = ''a4'', act_CreatedAt = 62135596903, act_CancelledAt = 62135596904,
       act_UserID = ''u1'', act_ObjectID = ''q1'', act_ActivityType = 4, act_Cancelled = 1,
       act_RevisionID = 7\<rparr>]"

definition example_service :: ActivityService where
  "example_service =
     \<lparr>activityRepo_GetObjectAllActivity =
        (\<lambda>objectID showVote. if objectID = ''q1'' then Inr example_activities else Inr []),
      userCommon_GetUserBasicInfoByID =
        (\<lambda>userID. if userID = ''u1''
           then Inr (\<lparr>usr_Username = ''alice'', usr_DisplayName = ''Alice''\<rparr>, True)
           else Inr (\<lparr>usr_Username = [], usr_DisplayName = []\<rparr>, False)),
      objectInfoService_GetInfo =
        (\<lambda>objectID. if objectID = ''q1''
           then Inr \<lparr>obj_Title = ''How?'', obj_ObjectType = ''question'',
                     obj_QuestionID = ''q1'', obj_AnswerID = []\<rparr>
           else if objectID = ''x1''
           then Inr \<lparr>obj_Title = ''Report'', obj_ObjectType = ''report'',
                     obj_QuestionID = [], obj_AnswerID = []\<rparr>
           else Inl (Failure ''object not found'')),
      commentCommonService_GetComment = (\<lambda>commentID. Inl (Failure ''comment not found'')),
      revisionService_GetRevision =
        (\<lambda>revisionID. if revisionID = ''r1''
           then Inr \<lparr>rev_ObjectID = ''q1'', rev_Content = ''{''\<rparr>
           else if revisionID = ''r2''
           then Inr \<lparr>rev_ObjectID = ''x1'', rev_Content = ''{}''\<rparr>
           else Inl (Failure ''revision not found'')),
      config_ID2KeyMapping =
        [1 \<mapsto> ''question.voted_up'', 2 \<mapsto> ''question.vote_up'',
         3 \<mapsto> ''comment.commented'', 4 \<mapsto> ''question.edited''],
      entity_ActivityCancelled = 1,
      converter_IntToString = (\<lambda>i. if i = 0 then ''0'' else ''7''),
      json_Unmarshal_Question = (\<lambda>content. Inl (Failure ''unexpected end of JSON input'')),
      json_Unmarshal_Answer = (\<lambda>content. Inl (Failure ''unexpected end of JSON input'')),
      json_Unmarshal_Tag = (\<lambda>content. Inl (Failure ''unexpected end of JSON input''))\<rparr>"

text \<open>The same service when the user store answers every lookup with an error.\<close>

definition failing_user_service :: ActivityService where
  "failing_user_service =
     example_service\<lparr>userCommon_GetUserBasicInfoByID :=
       (\<lambda>userID. Inl (Failure ''user store unreachable''))\<rparr>"

definition example_req :: GetObjectTimelineReq where
  "example_req = \<lparr>req_ObjectID = ''q1'', req_ShowVote = True\<rparr>"

subsection \<open>A tag table with five rows\<close>

text \<open>
  Two recommended tags, one plain tag, a deleted tag that is still flagged recommended
  and reserved, and a synonym of the first tag.
\<close>

definition tag_go :: Tag where
  "tag_go = Tag_zero\<lparr>ID := ''1'', SlugName := ''go'', DisplayName := ''Go'', Status := 1,
     Recommend := True, QuestionCount := 3\<rparr>"

definition tag_golang :: Tag where
  "tag_golang = Tag_zero\<lparr>ID := ''2'', SlugName := ''golang'', DisplayName := ''Golang'',
     Status := 1\<rparr>"

definition tag_rust :: Tag where
  "tag_rust = Tag_zero\<lparr>ID := ''3'', SlugName := ''rust'', DisplayName := ''Rust'',
     Status := 10, Recommend := True, Reserved := True\<rparr>"

definition tag_ab :: Tag where
  "tag_ab = Tag_zero\<lparr>ID := ''4'', SlugName := ''ab'', DisplayName := ''AB'', Status := 1,
     MainTagID := 1, MainTagSlugName := ''go'', Recommend := True\<rparr>"

definition tag_ada :: Tag where
  "tag_ada = Tag_zero\<lparr>ID := ''5'', SlugName := ''ada'', DisplayName := ''Ada'', Status := 1,
     Recommend := True, QuestionCount := 7\<rparr>"

definition example_world :: world where
  "example_world = \<lparr>tags = [tag_go, tag_golang, tag_rust, tag_ab, tag_ada], logs = []\<rparr>"

text \<open>
  A repository on a working engine where tags are required, the same where tags are
  not required, and the same where the site configuration cannot be read.
\<close>

definition example_repo :: tagRepo where
  "example_repo = \<lparr>data_DB_error = None,
     siteInfoService_GetSiteWrite = Inr \<lparr>RequiredTag = True\<rparr>,
     entity_TagStatusAvailable = 1, entity_TagStatusDeleted = 10\<rparr>"

definition repo_tags_optional :: tagRepo where
  "repo_tags_optional =
     example_repo\<lparr>siteInfoService_GetSiteWrite := Inr \<lparr>RequiredTag = False\<rparr>\<rparr>"

definition repo_config_unreadable :: tagRepo where
  "repo_config_unreadable =
     example_repo\<lparr>siteInfoService_GetSiteWrite := Inl (Failure ''site info unavailable'')\<rparr>"

section \<open>Facts about the activity timeline\<close>

lemma list_all2_mono_right:
  "list_all2 P xs ys \<Longrightarrow> (\<And>x y. y \<in> set ys \<Longrightarrow> P x y \<Longrightarrow> Q x y) \<Longrightarrow> list_all2 Q xs ys"
  by (induction rule: list_all2_induct) auto

lemma formatActivity_fst: "fst (formatActivity l) = hidden_label l"
  by (simp add: formatActivity_def hidden_label_def)

lemma formatActivity_snd: "\<not> hidden_label l \<Longrightarrow> snd (formatActivity l) = shown_label l"
  by (simp add: formatActivity_def hidden_label_def shown_label_def)

lemma timeline_item_hidden:
  "hidden_label (activity_label as act) \<Longrightarrow> timeline_item as act lg = (Inr None, lg)"
  by (simp add: timeline_item_def Let_def activity_label_def formatActivity_fst)

lemma timeline_item_user_error:
  "\<not> hidden_label (activity_label as act) \<Longrightarrow>
   userCommon_GetUserBasicInfoByID as (act_UserID act) = Inl e \<Longrightarrow>
   timeline_item as act lg = (Inl e, lg)"
  by (simp add: timeline_item_def Let_def activity_label_def formatActivity_fst)

lemma timeline_item_shown:
  "\<not> hidden_label (activity_label as act) \<Longrightarrow>
   userCommon_GetUserBasicInfoByID as (act_UserID act) = Inr (u, ex) \<Longrightarrow>
   \<exists>item lg'. timeline_item as act lg = (Inr (Some item), lg')
      \<and> item_ActivityID item = act_ID act
      \<and> item_ActivityType item = shown_label (activity_label as act)
      \<and> item_Username item = (if ex then usr_Username u else [])
      \<and> item_UserDisplayName item = (if ex then usr_DisplayName u else [])"
  by (simp add: timeline_item_def Let_def activity_label_def formatActivity_fst formatActivity_snd
        split: sum.splits)

lemma timeline_item_cases:
  "(\<not> shown as act \<and> timeline_item as act lg = (Inr None, lg))
   \<or> (shown as act \<and> user_fails as act \<and> (\<exists>e. timeline_item as act lg = (Inl e, lg)))
   \<or> (shown as act \<and> \<not> user_fails as act
        \<and> (\<exists>item lg'. timeline_item as act lg = (Inr (Some item), lg') \<and> renders as item act))"
proof (cases "shown as act")
  case False
  then show ?thesis by (simp add: shown_def timeline_item_hidden)
next
  case True
  show ?thesis
  proof (cases "userCommon_GetUserBasicInfoByID as (act_UserID act)")
    case (Inl e)
    with True show ?thesis
      by (simp add: shown_def user_fails_def timeline_item_user_error)
  next
    case (Inr p)
    obtain u ex where p: "p = (u, ex)" by (cases p)
    from timeline_item_shown [of as act u ex lg] True Inr p
    show ?thesis by (auto simp: shown_def user_fails_def renders_def)
  qed
qed

lemma timeline_loop_fails:
  "isl (fst (timeline_loop as acts acc lg)) = (\<exists>a\<in>set acts. shown as a \<and> user_fails as a)"
proof (induction acts arbitrary: acc lg)
  case Nil
  show ?case by simp
next
  case (Cons act rest)
  from timeline_item_cases [of as act lg] show ?case
    by (auto simp: Cons.IH)
qed

lemma timeline_loop_result:
  "timeline_loop as acts acc lg = (Inr acc', lg') \<Longrightarrow>
   \<exists>new. acc' = acc @ new \<and> list_all2 (renders as) new (filter (shown as) acts)"
proof (induction acts arbitrary: acc lg)
  case Nil
  then show ?case by simp
next
  case (Cons act rest)
  from timeline_item_cases [of as act lg] Cons.prems show ?case
  proof (elim disjE conjE exE)
    assume "\<not> shown as act" "timeline_item as act lg = (Inr None, lg)"
    with Cons.prems Cons.IH [of acc lg] show ?thesis by simp
  next
    fix e assume "timeline_item as act lg = (Inl e, lg)"
    with Cons.prems show ?thesis by simp
  next
    fix item lg1
    assume a: "shown as act" "timeline_item as act lg = (Inr (Some item), lg1)"
      "renders as item act"
    with Cons.prems have "timeline_loop as rest (acc @ [item]) lg1 = (Inr acc', lg')" by simp
    from Cons.IH [OF this] obtain new where
      "acc' = (acc @ [item]) @ new" "list_all2 (renders as) new (filter (shown as) rest)" by blast
    with a show ?thesis by simp
  qed
qed

lemmas example_defs = example_service_def example_activities_def example_req_def
  failing_user_service_def

lemmas timeline_eval = GetObjectTimeline_def timeline_item_def Let_def map_index_def
  formatActivity_def CommentObjectType_def Unix_def activity_label_def

lemma GetObjectTimeline_fails:
  "isl (fst (GetObjectTimeline as req lg)) =
     (case objectInfoService_GetInfo as (req_ObjectID req) of
        Inl e \<Rightarrow> True
      | Inr objInfo \<Rightarrow>
          (case activityRepo_GetObjectAllActivity as (req_ObjectID req) (req_ShowVote req) of
             Inl e \<Rightarrow> True
           | Inr acts \<Rightarrow> \<exists>act\<in>set acts. shown as act \<and> user_fails as act))"
proof (cases "objectInfoService_GetInfo as (req_ObjectID req)")
  case (Inl e)
  then show ?thesis by (simp add: GetObjectTimeline_def)
next
  case info: (Inr objInfo)
  show ?thesis
  proof (cases "activityRepo_GetObjectAllActivity as (req_ObjectID req) (req_ShowVote req)")
    case (Inl e)
    with info show ?thesis by (simp add: GetObjectTimeline_def)
  next
    case (Inr acts)
    obtain res lg' where l: "timeline_loop as acts [] lg = (res, lg')"
      by (cases "timeline_loop as acts [] lg")
    from timeline_loop_fails [of as acts "[]" lg] l
    have "isl res = (\<exists>act\<in>set acts. shown as act \<and> user_fails as act)" by simp
    with info Inr l show ?thesis
      by (cases res) (simp_all add: GetObjectTimeline_def)
  qed
qed

lemma GetObjectTimeline_entries:
  assumes "GetObjectTimeline as req lg = (Inr resp, lg')"
  shows "\<exists>acts. activityRepo_GetObjectAllActivity as (req_ObjectID req) (req_ShowVote req) = Inr acts
           \<and> list_all2 (renders as) (resp_Timeline resp) (filter (shown as) acts)"
proof -
  from assms obtain objInfo acts timeline where
    acts: "activityRepo_GetObjectAllActivity as (req_ObjectID req) (req_ShowVote req) = Inr acts"
    and l: "timeline_loop as acts [] lg = (Inr timeline, lg')"
    and r: "resp_Timeline resp = timeline"
    by (auto simp: GetObjectTimeline_def Let_def split: sum.splits prod.splits)
  from timeline_loop_result [OF l] r have
    "list_all2 (renders as) (resp_Timeline resp) (filter (shown as) acts)" by simp
  with acts show ?thesis by blast
qed

lemma getOneObjectDetail_fails:
  "isl (fst (getOneObjectDetail as revisionID lg)) =
     (case revisionService_GetRevision as revisionID of
        Inl e \<Rightarrow> True
      | Inr revision \<Rightarrow> isl (objectInfoService_GetInfo as (rev_ObjectID revision)))"
  by (simp add: getOneObjectDetail_def Let_def split: sum.splits)

lemma GetObjectTimelineDetail_fails:
  "isl (fst (GetObjectTimelineDetail as dreq lg)) =
     (isl (fst (getOneObjectDetail as (req_OldRevisionID dreq) lg))
      \<or> isl (fst (getOneObjectDetail as (req_NewRevisionID dreq) lg)))"
proof -
  obtain r1 lg1 where d1: "getOneObjectDetail as (req_OldRevisionID dreq) lg = (r1, lg1)"
    by (cases "getOneObjectDetail as (req_OldRevisionID dreq) lg")
  obtain r2 lg2 where d2: "getOneObjectDetail as (req_NewRevisionID dreq) lg1 = (r2, lg2)"
    by (cases "getOneObjectDetail as (req_NewRevisionID dreq) lg1")
  have "isl (fst (getOneObjectDetail as (req_NewRevisionID dreq) lg)) = isl r2"
    using d2 getOneObjectDetail_fails [of as "req_NewRevisionID dreq" lg]
      getOneObjectDetail_fails [of as "req_NewRevisionID dreq" lg1] by simp
  with d1 d2 show ?thesis
    by (cases r1; cases r2) (simp_all add: GetObjectTimelineDetail_def)
qed

lemma timeline_item_user_missing:
  assumes "\<not> fst (formatActivity (activity_label as act))"
    "userCommon_GetUserBasicInfoByID as (act_UserID act) = Inr (u, False)"
  shows "\<exists>item lg'. timeline_item as act lg = (Inr (Some item), lg')
           \<and> item_ActivityID item = act_ID act
           \<and> item_Username item = [] \<and> item_UserDisplayName item = []"
  using timeline_item_shown [of as act u False lg] assms
  by (auto simp: formatActivity_fst)

lemma timeline_item_comment_error:
  assumes "\<not> fst (formatActivity (activity_label as act))"
    "userCommon_GetUserBasicInfoByID as (act_UserID act) = Inr (u, ex)"
    "fst (Cut (map_index (config_ID2KeyMapping as) (act_ActivityType act)) ''.'')
       = CommentObjectType"
    "commentCommonService_GetComment as (act_ObjectID act) = Inl e"
  shows "\<exists>item. timeline_item as act lg = (Inr (Some item), lg @ [Log [] [ArgErr e]])
           \<and> item_ActivityID item = act_ID act \<and> item_Comment item = []"
  using assms by (simp add: timeline_item_def Let_def activity_label_def)

lemma getOneObjectDetail_degrades:
  assumes "revisionService_GetRevision as revisionID = Inr revision"
    "objectInfoService_GetInfo as (rev_ObjectID revision) = Inr objInfo"
    "(obj_ObjectType objInfo = QuestionObjectType
        \<and> isl (json_Unmarshal_Question as (rev_Content revision)))
     \<or> (obj_ObjectType objInfo = AnswerObjectType
        \<and> isl (json_Unmarshal_Answer as (rev_Content revision)))
     \<or> (obj_ObjectType objInfo = TagObjectType
        \<and> isl (json_Unmarshal_Tag as (rev_Content revision)))
     \<or> obj_ObjectType objInfo \<notin> {QuestionObjectType, AnswerObjectType, TagObjectType}"
  shows "\<exists>entry. getOneObjectDetail as revisionID lg
           = (Inr \<lparr>det_Title = [], det_Tags = [], det_OriginalText = []\<rparr>, lg @ [entry])"
  using assms
  by (auto simp: getOneObjectDetail_def Let_def QuestionObjectType_def AnswerObjectType_def
        TagObjectType_def split: sum.splits)

section \<open>Facts about the store\<close>

subsection \<open>Sorting\<close>

lemma set_insert_row: "set (insert_row ks x ys) = insert x (set ys)"
  by (induction ys) auto

lemma set_sort_rows: "set (sort_rows ks rows) = set rows"
  by (induction rows) (simp_all add: sort_rows_def set_insert_row)

lemma length_insert_row: "length (insert_row ks x ys) = Suc (length ys)"
  by (induction ys) auto

lemma length_sort_rows: "length (sort_rows ks rows) = length rows"
  by (induction rows) (simp_all add: sort_rows_def length_insert_row)

lemma sort_rows_no_keys: "sort_rows [] rows = rows"
proof (induction rows)
  case Nil
  show ?case by (simp add: sort_rows_def)
next
  case (Cons x xs)
  have "insert_row [] x xs = x # xs" by (cases xs) simp_all
  with Cons show ?case by (simp add: sort_rows_def)
qed

lemma val_le_total: "val_le a b \<or> val_le b a"
  by (cases a; cases b) auto

lemma val_le_trans: "val_le a b \<Longrightarrow> val_le b c \<Longrightarrow> val_le a c"
  by (cases a; cases b; cases c) auto

lemma val_le_antisym: "val_le a b \<Longrightarrow> val_le b a \<Longrightarrow> a = b"
  by (cases a; cases b) auto

lemma row_le_total: "row_le ks a b \<or> row_le ks b a"
proof (induction ks)
  case Nil
  show ?case by simp
next
  case (Cons k ks)
  obtain c d where k: "k = (c, d)" by (cases k)
  from Cons val_le_total [of "col_val c a" "col_val c b"] show ?case
    by (cases d) (auto simp: k)
qed

lemma row_le_trans: "row_le ks a b \<Longrightarrow> row_le ks b c \<Longrightarrow> row_le ks a c"
proof (induction ks)
  case Nil
  show ?case by simp
next
  case (Cons k ks)
  obtain col d where k: "k = (col, d)" by (cases k)
  let ?x = "col_val col a" and ?y = "col_val col b" and ?z = "col_val col c"
  show ?case
  proof (cases "?x = ?y")
    case xy: True
    show ?thesis
    proof (cases "?y = ?z")
      case True
      with xy Cons show ?thesis by (simp add: k)
    next
      case False
      with xy Cons.prems show ?thesis by (cases d) (auto simp: k)
    qed
  next
    case xy: False
    show ?thesis
    proof (cases "?y = ?z")
      case True
      with xy Cons.prems show ?thesis by (cases d) (auto simp: k)
    next
      case yz: False
      show ?thesis
      proof (cases d)
        case ASC
        with xy yz Cons.prems have le: "val_le ?x ?y" "val_le ?y ?z" by (simp_all add: k)
        then have xz: "val_le ?x ?z" by (rule val_le_trans)
        have "?x \<noteq> ?z"
        proof
          assume "?x = ?z"
          with le have "val_le ?y ?x" by simp
          with le(1) have "?x = ?y" by (rule val_le_antisym)
          with xy show False by simp
        qed
        with xz ASC show ?thesis by (simp add: k)
      next
        case DESC
        with xy yz Cons.prems have le: "val_le ?y ?x" "val_le ?z ?y" by (simp_all add: k)
        then have xz: "val_le ?z ?x" by (metis val_le_trans)
        have "?x \<noteq> ?z"
        proof
          assume "?x = ?z"
          with le have "val_le ?x ?y" by simp
          with le(1) have "?y = ?x" by (rule val_le_antisym)
          with xy show False by simp
        qed
        with xz DESC show ?thesis by (simp add: k)
      qed
    qed
  qed
qed

lemma sorted_insert_row:
  "sorted_wrt (row_le ks) ys \<Longrightarrow> sorted_wrt (row_le ks) (insert_row ks x ys)"
proof (induction ys)
  case Nil
  show ?case by simp
next
  case (Cons y ys)
  show ?case
  proof (cases "row_le ks x y")
    case True
    with Cons.prems have "\<forall>z\<in>set ys. row_le ks x z" by (auto intro: row_le_trans)
    with True Cons.prems show ?thesis by simp
  next
    case False
    with row_le_total [of ks x y] have "row_le ks y x" by simp
    with False Cons show ?thesis by (auto simp: set_insert_row)
  qed
qed

lemma sorted_sort_rows: "sorted_wrt (row_le ks) (sort_rows ks rows)"
  by (induction rows) (simp_all add: sort_rows_def sorted_insert_row)

lemma row_le_slug_first:
  "row_le ((Col_slug_name, ASC) # ks) a b \<Longrightarrow> SlugName a \<le> SlugName b"
  by (auto split: if_splits)

lemma sorted_wrt_take_drop: "sorted_wrt P xs \<Longrightarrow> sorted_wrt P (take n (drop m xs))"
  by (simp add: sorted_wrt_drop sorted_wrt_take)

subsection \<open>Windows and selections\<close>

lemma set_window: "set (window s rows) \<subseteq> set rows"
  by (auto simp: window_def split: option.splits dest: in_set_takeD in_set_dropD)

lemma length_window: "limitN s = Some n \<Longrightarrow> 0 \<le> n \<Longrightarrow> int (length (window s rows)) \<le> n"
  by (simp add: window_def)

lemma sorted_window: "sorted_wrt P rows \<Longrightarrow> sorted_wrt P (window s rows)"
  by (simp add: window_def sorted_wrt_take_drop split: option.splits)

lemma set_selected:
  "set (selected s bean rows) = {t \<in> set rows. matches (conds s @ bean_conds s bean) t}"
  by (auto simp: selected_def set_sort_rows)

lemma matches_append: "matches (cs @ ds) t = (matches cs t \<and> matches ds t)"
  by (simp add: matches_def)

lemma matches_member: "matches cs t \<Longrightarrow> c \<in> set cs \<Longrightarrow> holds c t"
  by (simp add: matches_def list_all_iff)

subsection \<open>LIKE without wildcards\<close>

lemma sql_like_percent_only: "sql_like ''%'' s"
  by (induction s) simp_all

lemma sql_like_percent:
  "sql_like (CHR ''%'' # p) s = (\<exists>ys zs. s = ys @ zs \<and> sql_like p zs)"
proof (induction s)
  case Nil
  show ?case by simp
next
  case (Cons c cs)
  show ?case
  proof
    assume "sql_like (CHR ''%'' # p) (c # cs)"
    then have "sql_like p (c # cs) \<or> sql_like (CHR ''%'' # p) cs" by simp
    then show "\<exists>ys zs. c # cs = ys @ zs \<and> sql_like p zs"
    proof
      assume "sql_like p (c # cs)"
      then have "c # cs = [] @ (c # cs) \<and> sql_like p (c # cs)" by simp
      then show ?thesis by blast
    next
      assume "sql_like (CHR ''%'' # p) cs"
      with Cons obtain ys zs where "cs = ys @ zs" "sql_like p zs" by blast
      then have "c # cs = (c # ys) @ zs \<and> sql_like p zs" by simp
      then show ?thesis by blast
    qed
  next
    assume "\<exists>ys zs. c # cs = ys @ zs \<and> sql_like p zs"
    then obtain ys zs where s: "c # cs = ys @ zs" and l: "sql_like p zs" by blast
    show "sql_like (CHR ''%'' # p) (c # cs)"
    proof (cases ys)
      case Nil
      with s have "zs = c # cs" by simp
      with l show ?thesis by simp
    next
      case (Cons y ys')
      with s have "cs = ys' @ zs" by simp
      with l Cons.IH have "sql_like (CHR ''%'' # p) cs" by blast
      then show ?thesis by simp
    qed
  qed
qed

lemma sql_like_literal:
  "wildcard_free v \<Longrightarrow> sql_like (v @ p) s = (\<exists>r. s = v @ r \<and> sql_like p r)"
proof (induction v arbitrary: s)
  case Nil
  show ?case by simp
next
  case (Cons a v)
  then have a: "a \<noteq> CHR ''%''" "a \<noteq> CHR ''_''" and v: "wildcard_free v"
    by (auto simp: wildcard_free_def)
  show ?case
  proof (cases s)
    case Nil
    with a show ?thesis by simp
  next
    case (Cons c cs)
    with a Cons.IH [OF v, of cs] show ?thesis by auto
  qed
qed

lemma sql_like_prefix: "wildcard_free v \<Longrightarrow> sql_like (v @ ''%'') s = prefix v s"
  by (auto simp: sql_like_literal sql_like_percent_only prefix_def)

lemma sql_like_infix:
  "wildcard_free v \<Longrightarrow> sql_like (CHR ''%'' # v @ ''%'') s = sublist v s"
  by (auto simp: sql_like_percent sql_like_literal sql_like_percent_only sublist_def)

lemma like_arg_wildcard_free: "wildcard_free v \<Longrightarrow> like_arg v = ''%'' @ v @ ''%''"
proof (cases v)
  case Nil
  then show ?thesis by (simp add: like_arg_def)
next
  case (Cons a as)
  assume "wildcard_free v"
  then have "CHR ''%'' \<notin> set v" by (simp add: wildcard_free_def)
  moreover have "hd v \<in> set v" "last v \<in> set v" using Cons by simp_all
  ultimately have "hd v \<noteq> CHR ''%''" "last v \<noteq> CHR ''%''" by metis+
  then show ?thesis by (simp add: like_arg_def)
qed

section \<open>Facts about the tag repository\<close>

subsection \<open>The steps shared by the reads\<close>

lemma tagRecommendStatus_tags: "tags (snd (tagRecommendStatus tr w)) = tags w"
  by (simp add: tagRecommendStatus_def split: sum.splits)

lemma tagRecommendStatus_fst:
  "fst (tagRecommendStatus tr w) =
     (case siteInfoService_GetSiteWrite tr of Inl e \<Rightarrow> False | Inr c \<Rightarrow> RequiredTag c)"
  by (simp add: tagRecommendStatus_def split: sum.splits)

lemma mask_recommend_off: "t \<in> set (mask_recommend False rows) \<Longrightarrow> \<not> Recommend t"
  by (auto simp: mask_recommend_def)

lemma mask_recommend_row:
  "r \<in> set (mask_recommend st rows) \<Longrightarrow>
   \<exists>t\<in>set rows. r = (if st then t else t\<lparr>Recommend := False\<rparr>)"
  by (cases st) (auto simp: mask_recommend_def)

lemma length_mask_recommend: "length (mask_recommend st rows) = length rows"
  by (simp add: mask_recommend_def)

lemma find_into_row:
  "t \<in> set (fst (find_into (Find e s bean rows))) \<Longrightarrow>
   t \<in> set rows \<and> matches (conds s) t \<and> matches (bean_conds s bean) t"
proof -
  assume a: "t \<in> set (fst (find_into (Find e s bean rows)))"
  then have "e = None" by (cases e) (simp_all add: find_into_def Find_def)
  with a have "t \<in> set (window s (selected s bean rows))"
    by (simp add: find_into_def Find_def)
  with set_window have "t \<in> set (selected s bean rows)" by blast
  then show ?thesis by (simp add: set_selected matches_append)
qed

lemma find_into_ok:
  "find_into (Find None s bean rows) = (window s (selected s bean rows), None)"
  by (simp add: find_into_def Find_def)

lemma find_into_failing:
  "find_into (Find (Some e) s bean rows) = ([], Some (DatabaseError e))"
  by (simp add: find_into_def Find_def)

lemma Get_row:
  "Get e s bean rows = Inr (t, True) \<Longrightarrow> t \<in> set rows \<and> matches (conds s) t"
proof -
  assume a: "Get e s bean rows = Inr (t, True)"
  then have "e = None" by (cases e) (simp_all add: Get_def)
  with a obtain rest where "selected s (Some bean) rows = t # rest"
    by (auto simp: Get_def split: list.splits)
  then have "t \<in> set (selected s (Some bean) rows)" by simp
  then show ?thesis by (simp add: set_selected matches_append)
qed

lemma Get_none:
  "\<forall>t\<in>set rows. \<not> matches (conds s) t \<Longrightarrow> Get None s bean rows = Inr (bean, False)"
proof -
  assume a: "\<forall>t\<in>set rows. \<not> matches (conds s) t"
  have "set (selected s (Some bean) rows) = {}"
    using a by (auto simp: set_selected matches_append)
  then show ?thesis by (simp add: Get_def)
qed

subsection \<open>Rows returned by each listing\<close>

lemma GetTagListByIDs_row:
  assumes "r \<in> set (fst (fst (GetTagListByIDs tr ids w)))"
  shows "\<exists>t\<in>set (tags w). r = read_of tr w t \<and> ID t \<in> set ids
           \<and> Status t = entity_TagStatusAvailable tr"
proof -
  from assms obtain t where
    t: "t \<in> set (fst (find_into (Find (data_DB_error tr)
          (OrderBy [(Col_recommend, DESC), (Col_reserved, DESC), (Col_id, DESC)]
            (Where (builder_Eq Col_status (VInt (entity_TagStatusAvailable tr)))
              (In Col_id ids NewSession))) None (tags w))))"
    and r: "r = read_of tr w t"
    by (auto simp: GetTagListByIDs_def Let_def read_of_def dest!: mask_recommend_row)
  from find_into_row [OF t] have "t \<in> set (tags w)" "ID t \<in> set ids"
    "Status t = entity_TagStatusAvailable tr"
    by (auto simp: OrderBy_def Where_def In_def NewSession_def matches_def)
  with r show ?thesis by blast
qed


lemmas session_defs = NewSession_def Where_def In_def Limit_def Asc_def Desc_def OrderBy_def
  MustCols_def UseBool_def

lemmas bean_defs = bean_conds_def used_col_def all_columns_def Tag_zero_def IsZero_def

lemma Tag_zero_Reserved: "Tag_zero\<lparr>Reserved := False\<rparr> = Tag_zero"
  by (simp add: Tag_zero_def)

lemma GetTagListByName_rows:
  "fst (fst (GetTagListByName tr name limit hasReserved w))
     = mask_recommend (fst (tagRecommendStatus tr w))
         (fst (find_into (Find (data_DB_error tr)
           (OrderBy [(Col_recommend, DESC), (Col_reserved, DESC), (Col_id, DESC)]
             ((if \<not> hasReserved then UseBool [Col_recommend, Col_reserved]
               else UseBool [Col_recommend])
               (Asc Col_slug_name (Limit limit 0
                 (Where (builder_Eq Col_status (VInt (entity_TagStatusAvailable tr)))
                   ((if name \<noteq> [] then Where (Sql_LIKE Col_slug_name (name @ ''%''))
                     else (\<lambda>s. s))
                     (Where Sql_empty NewSession)))))))
           (Some (if name \<noteq> [] then Tag_zero else Tag_zero\<lparr>Recommend := True\<rparr>))
           (tags w))))"
  by (simp add: GetTagListByName_def Let_def Tag_zero_def)

lemma GetTagListByName_row:
  assumes "r \<in> set (fst (fst (GetTagListByName tr name limit hasReserved w)))"
  shows "\<exists>t\<in>set (tags w). r = read_of tr w t
           \<and> Status t = entity_TagStatusAvailable tr
           \<and> (if name \<noteq> [] then sql_like (name @ ''%'') (SlugName t) \<and> \<not> Recommend t
               else Recommend t)
           \<and> (\<not> hasReserved \<longrightarrow> \<not> Reserved t)"
proof -
  from assms obtain t s b where
    t: "t \<in> set (fst (find_into (Find (data_DB_error tr) s (Some b) (tags w))))"
    and r: "r = read_of tr w t"
    and s: "s = OrderBy [(Col_recommend, DESC), (Col_reserved, DESC), (Col_id, DESC)]
      ((if \<not> hasReserved then UseBool [Col_recommend, Col_reserved] else UseBool [Col_recommend])
        (Asc Col_slug_name (Limit limit 0
          (Where (builder_Eq Col_status (VInt (entity_TagStatusAvailable tr)))
            ((if name \<noteq> [] then Where (Sql_LIKE Col_slug_name (name @ ''%'')) else (\<lambda>s. s))
              (Where Sql_empty NewSession))))))"
    and b: "b = (if name \<noteq> [] then Tag_zero else Tag_zero\<lparr>Recommend := True\<rparr>)"
    unfolding GetTagListByName_rows read_of_def by (blast dest!: mask_recommend_row)
  from find_into_row [OF t] have in_rows: "t \<in> set (tags w)"
    and c: "matches (conds s) t" and bc: "matches (bean_conds s (Some b)) t" by simp_all
  from c have "Status t = entity_TagStatusAvailable tr"
    "name \<noteq> [] \<longrightarrow> sql_like (name @ ''%'') (SlugName t)"
    by (auto simp: s session_defs matches_def split: if_splits)
  moreover from bc have "if name \<noteq> [] then \<not> Recommend t else Recommend t"
    "\<not> hasReserved \<longrightarrow> \<not> Reserved t"
    by (auto simp: s b session_defs bean_defs matches_def split: if_splits)
  ultimately show ?thesis using in_rows r by auto
qed

lemma sorted_mask_recommend:
  "sorted_wrt (\<lambda>a b. SlugName a \<le> SlugName b) rows \<Longrightarrow>
   sorted_wrt (\<lambda>a b. SlugName a \<le> SlugName b) (mask_recommend st rows)"
  by (simp add: mask_recommend_def sorted_wrt_map)

lemma Find_sorted_by_slug:
  assumes "orders s = (Col_slug_name, ASC) # ks"
  shows "sorted_wrt (\<lambda>a b. SlugName a \<le> SlugName b) (fst (find_into (Find e s bean rows)))"
proof (cases e)
  case (Some err)
  then show ?thesis by (simp add: find_into_failing)
next
  case None
  have "sorted_wrt (row_le (orders s)) (selected s bean rows)"
    by (simp add: selected_def sorted_sort_rows)
  then have "sorted_wrt (\<lambda>a b. SlugName a \<le> SlugName b) (selected s bean rows)"
    unfolding assms by (rule sorted_wrt_mono_rel [rotated]) (rule row_le_slug_first)
  then show ?thesis using None by (simp add: find_into_ok sorted_window)
qed

lemma Find_limited:
  assumes "limitN s = Some n" "0 \<le> n"
  shows "int (length (fst (find_into (Find e s bean rows)))) \<le> n"
proof (cases e)
  case (Some err)
  with assms show ?thesis by (simp add: find_into_failing)
next
  case None
  with assms show ?thesis by (simp add: find_into_ok length_window)
qed

lemma GetTagListByName_sorted:
  "sorted_wrt (\<lambda>a b. SlugName a \<le> SlugName b)
     (fst (fst (GetTagListByName tr name limit hasReserved w)))"
  unfolding GetTagListByName_rows
  by (rule sorted_mask_recommend, rule Find_sorted_by_slug [where ks =
        "[(Col_recommend, DESC), (Col_reserved, DESC), (Col_id, DESC)]"])
     (simp add: session_defs)

lemma GetTagListByName_limited:
  "0 \<le> limit \<Longrightarrow>
   int (length (fst (fst (GetTagListByName tr name limit hasReserved w)))) \<le> limit"
  unfolding GetTagListByName_rows length_mask_recommend
  by (rule Find_limited) (simp_all add: session_defs)

lemma GetTagList_row:
  assumes "r \<in> set (fst (fst (GetTagList tr tag w)))"
  shows "\<exists>t\<in>set (tags w). r = read_of tr w t \<and> Status t = entity_TagStatusAvailable tr"
proof -
  from assms obtain t where
    t: "t \<in> set (fst (find_into (Find (data_DB_error tr)
          (Where (builder_Eq Col_status (VInt (entity_TagStatusAvailable tr))) NewSession)
          (Some tag) (tags w))))"
    and r: "r = read_of tr w t"
    by (auto simp: GetTagList_def Let_def read_of_def dest!: mask_recommend_row)
  from find_into_row [OF t] have "t \<in> set (tags w)" "Status t = entity_TagStatusAvailable tr"
    by (auto simp: session_defs matches_def)
  with r show ?thesis by blast
qed


lemma pager_Help_row:
  assumes "pager_Help page pageSize rowElement s e rows = Inr (found, n)" "t \<in> set found"
  shows "t \<in> set rows \<and> matches (conds s) t"
proof -
  from assms(1) have "e = None" by (cases e) (simp_all add: pager_Help_def FindAndCount_def)
  with assms have
    "t \<in> set (window (Limit pageSize ((page - 1) * pageSize) s)
       (selected (Limit pageSize ((page - 1) * pageSize) s) (Some rowElement) rows))"
    by (auto simp: pager_Help_def FindAndCount_def)
  with set_window have
    "t \<in> set (selected (Limit pageSize ((page - 1) * pageSize) s) (Some rowElement) rows)"
    by blast
  then show ?thesis by (simp add: set_selected matches_append Limit_def)
qed

lemma GetTagPage_row:
  assumes "r \<in> set (fst (fst (GetTagPage tr page pageSize tag queryCond w)))"
  shows "\<exists>t\<in>set (tags w). r = read_of tr w t
           \<and> Status t = entity_TagStatusAvailable tr \<and> MainTagID t = 0
           \<and> (SlugName tag \<noteq> [] \<longrightarrow>
                 sql_like (like_arg (SlugName tag)) (SlugName t)
                 \<or> sql_like (like_arg (SlugName tag)) (DisplayName t))"
proof -
  define s where "s =
    (if queryCond = ''popular'' then Desc Col_question_count
     else if queryCond = ''name'' then Asc Col_slug_name
     else if queryCond = ''newest'' then Desc Col_created_at else (\<lambda>s. s))
      (Where (builder_Eq Col_main_tag_id (VInt 0))
        (Where (builder_Eq Col_status (VInt (entity_TagStatusAvailable tr)))
          ((if length (SlugName tag) > 0
            then Where (builder_Or (builder_Like Col_slug_name (SlugName tag))
                                   (builder_Like Col_display_name (SlugName tag)))
            else (\<lambda>s. s)) NewSession)))"
  define b where "b = (if length (SlugName tag) > 0 then tag\<lparr>SlugName := []\<rparr> else tag)"
  define paged where "paged = pager_Help page pageSize b s (data_DB_error tr) (tags w)"
  have rows: "fst (fst (GetTagPage tr page pageSize tag queryCond w))
      = mask_recommend (fst (tagRecommendStatus tr w))
          (case paged of Inl err \<Rightarrow> [] | Inr (rows, n) \<Rightarrow> rows)"
    by (simp add: GetTagPage_def Let_def s_def b_def paged_def split: sum.splits)
  from assms obtain t found n where p: "paged = Inr (found, n)" and t: "t \<in> set found"
    and r: "r = read_of tr w t"
    unfolding rows read_of_def by (auto dest!: mask_recommend_row split: sum.splits)
  from pager_Help_row [OF p [unfolded paged_def] t]
  have in_rows: "t \<in> set (tags w)" and c: "matches (conds s) t" by simp_all
  from c have "Status t = entity_TagStatusAvailable tr" "MainTagID t = 0"
    "SlugName tag \<noteq> [] \<longrightarrow>
       sql_like (like_arg (SlugName tag)) (SlugName t)
       \<or> sql_like (like_arg (SlugName tag)) (DisplayName t)"
    by (auto simp: s_def session_defs matches_def split: if_splits)
  with in_rows r show ?thesis by blast
qed

lemma GetTagPage_filter:
  "fst (snd (GetTagPage tr page pageSize tag queryCond w))
     = (if length (SlugName tag) > 0 then tag\<lparr>SlugName := []\<rparr> else tag)"
  by (simp add: GetTagPage_def Let_def)

lemma GetTagPage_world:
  "snd (snd (GetTagPage tr page pageSize tag queryCond w)) = snd (tagRecommendStatus tr w)"
  by (simp add: GetTagPage_def Let_def)

subsection \<open>Reads of one row\<close>

lemma GetTagByID_found:
  assumes "fst (GetTagByID tr tagID w) = (Some r, True, err)"
  shows "\<exists>t\<in>set (tags w). r = read_of tr w t \<and> ID t = tagID
           \<and> Status t = entity_TagStatusAvailable tr"
proof -
  from assms obtain t where
    g: "Get (data_DB_error tr)
          (Where (builder_Eq Col_status (VInt (entity_TagStatusAvailable tr)))
            (Where (builder_Eq Col_id (VStr tagID)) NewSession)) Tag_zero (tags w) = Inr (t, True)"
    and r: "r = read_of tr w t"
    by (auto simp: GetTagByID_def Let_def read_of_def split: sum.splits if_splits)
  from Get_row [OF g] have "t \<in> set (tags w)" "ID t = tagID"
    "Status t = entity_TagStatusAvailable tr"
    by (auto simp: session_defs matches_def)
  with r show ?thesis by blast
qed

lemma GetTagByID_masked:
  "fst (GetTagByID tr tagID w) = (Some r, ex, err) \<Longrightarrow> \<not> fst (tagRecommendStatus tr w) \<Longrightarrow>
   \<not> Recommend r"
  by (auto simp: GetTagByID_def Let_def split: sum.splits)

lemma GetTagByID_tags: "tags (snd (GetTagByID tr tagID w)) = tags w"
  by (simp add: GetTagByID_def Let_def tagRecommendStatus_tags split: sum.splits prod.splits)

lemma GetTagByID_absent:
  assumes "\<forall>t\<in>set (tags w). ID t = tagID \<longrightarrow> Status t \<noteq> entity_TagStatusAvailable tr"
  shows "\<not> fst (snd (fst (GetTagByID tr tagID w)))"
proof (cases "data_DB_error tr")
  case (Some e)
  then show ?thesis by (simp add: GetTagByID_def Let_def Get_def)
next
  case None
  have "Get None
          (Where (builder_Eq Col_status (VInt (entity_TagStatusAvailable tr)))
            (Where (builder_Eq Col_id (VStr tagID)) NewSession)) Tag_zero (tags w)
        = Inr (Tag_zero, False)"
    using assms by (intro Get_none) (auto simp: session_defs matches_def)
  with None show ?thesis by (simp add: GetTagByID_def Let_def)
qed

lemma GetTagBySlugName_found:
  assumes "fst (GetTagBySlugName tr slugName w) = (Some r, True, err)"
  shows "\<exists>t\<in>set (tags w). r = read_of tr w t \<and> SlugName t = slugName
           \<and> Status t = entity_TagStatusAvailable tr"
proof -
  from assms obtain t where
    g: "Get (data_DB_error tr)
          (Where (builder_Eq Col_status (VInt (entity_TagStatusAvailable tr)))
            (Where (builder_Eq Col_slug_name (VStr slugName)) NewSession)) Tag_zero (tags w)
        = Inr (t, True)"
    and r: "r = read_of tr w t"
    by (auto simp: GetTagBySlugName_def Let_def read_of_def split: sum.splits if_splits)
  from Get_row [OF g] have "t \<in> set (tags w)" "SlugName t = slugName"
    "Status t = entity_TagStatusAvailable tr"
    by (auto simp: session_defs matches_def)
  with r show ?thesis by blast
qed

lemma GetTagBySlugName_masked:
  "fst (GetTagBySlugName tr slugName w) = (Some r, ex, err) \<Longrightarrow>
   \<not> fst (tagRecommendStatus tr w) \<Longrightarrow> \<not> Recommend r"
  by (auto simp: GetTagBySlugName_def Let_def split: sum.splits)

lemma GetTagBySlugName_tags: "tags (snd (GetTagBySlugName tr slugName w)) = tags w"
  by (simp add: GetTagBySlugName_def Let_def tagRecommendStatus_tags split: sum.splits prod.splits)

subsection \<open>Listings without a status condition\<close>

lemma selected_no_limit:
  "limitN s = None \<Longrightarrow>
   find_into (Find None s bean rows)
     = (sort_rows (orders s) (filter (matches (conds s @ bean_conds s bean)) rows), None)"
  by (simp add: find_into_ok window_def selected_def)

lemma used_cols_recommend:
  "mustCols s = [Col_recommend] \<Longrightarrow> \<not> allUseBool s \<Longrightarrow>
   filter (used_col s (Tag_zero\<lparr>Recommend := True\<rparr>)) all_columns = [Col_recommend]"
  by (simp add: used_col_def all_columns_def Tag_zero_def IsZero_def)

lemma used_cols_reserved:
  "mustCols s = [Col_reserved] \<Longrightarrow> \<not> allUseBool s \<Longrightarrow>
   filter (used_col s (Tag_zero\<lparr>Reserved := True\<rparr>)) all_columns = [Col_reserved]"
  by (simp add: used_col_def all_columns_def Tag_zero_def IsZero_def)

lemma GetRecommendTagList_rows:
  assumes "data_DB_error tr = None"
  shows "fst (GetRecommendTagList tr w)
           = (mask_recommend (fst (tagRecommendStatus tr w))
                (sort_rows [(Col_slug_name, ASC)] (filter Recommend (tags w))), None)"
proof -
  define s where "s = UseBool [Col_recommend] (Asc Col_slug_name (Where Sql_empty NewSession))"
  have s: "conds s = [Sql_empty]" "orders s = [(Col_slug_name, ASC)]" "limitN s = None"
    "mustCols s = [Col_recommend]" "\<not> allUseBool s"
    by (simp_all add: s_def session_defs)
  have b: "bean_conds s (Some (Tag_zero\<lparr>Recommend := True\<rparr>))
             = [builder_Eq Col_recommend (VBool True)]"
    by (simp add: bean_conds_def used_cols_recommend [OF s(4,5)])
  have f: "filter (matches [Sql_empty, builder_Eq Col_recommend (VBool True)]) (tags w)
          = filter Recommend (tags w)"
    by (rule filter_cong) (simp_all add: matches_def)
  have "fst (GetRecommendTagList tr w)
          = (mask_recommend (fst (tagRecommendStatus tr w))
              (fst (find_into (Find None s (Some (Tag_zero\<lparr>Recommend := True\<rparr>)) (tags w)))),
             snd (find_into (Find None s (Some (Tag_zero\<lparr>Recommend := True\<rparr>)) (tags w))))"
    using assms by (simp add: GetRecommendTagList_def Let_def s_def)
  then show ?thesis by (simp add: selected_no_limit [OF s(3)] s b f)
qed

lemma GetReservedTagList_rows:
  assumes "data_DB_error tr = None"
  shows "fst (GetReservedTagList tr w)
           = (mask_recommend (fst (tagRecommendStatus tr w))
                (sort_rows [(Col_slug_name, ASC)] (filter Reserved (tags w))), None)"
proof -
  define s where "s = UseBool [Col_reserved] (Asc Col_slug_name (Where Sql_empty NewSession))"
  have s: "conds s = [Sql_empty]" "orders s = [(Col_slug_name, ASC)]" "limitN s = None"
    "mustCols s = [Col_reserved]" "\<not> allUseBool s"
    by (simp_all add: s_def session_defs)
  have b: "bean_conds s (Some (Tag_zero\<lparr>Reserved := True\<rparr>))
             = [builder_Eq Col_reserved (VBool True)]"
    by (simp add: bean_conds_def used_cols_reserved [OF s(4,5)])
  have f: "filter (matches [Sql_empty, builder_Eq Col_reserved (VBool True)]) (tags w)
          = filter Reserved (tags w)"
    by (rule filter_cong) (simp_all add: matches_def)
  have "fst (GetReservedTagList tr w)
          = (mask_recommend (fst (tagRecommendStatus tr w))
              (fst (find_into (Find None s (Some (Tag_zero\<lparr>Reserved := True\<rparr>)) (tags w)))),
             snd (find_into (Find None s (Some (Tag_zero\<lparr>Reserved := True\<rparr>)) (tags w))))"
    using assms by (simp add: GetReservedTagList_def Let_def s_def)
  then show ?thesis by (simp add: selected_no_limit [OF s(3)] s b f)
qed

lemma GetTagListByNames_rows:
  assumes "data_DB_error tr = None"
  shows "fst (GetTagListByNames tr names w)
           = (mask_recommend (fst (tagRecommendStatus tr w))
                (sort_rows [(Col_recommend, DESC), (Col_reserved, DESC), (Col_id, DESC)]
                   (filter (\<lambda>t. SlugName t \<in> set names) (tags w))), None)"
proof -
  have "filter (matches [builder_In Col_slug_name names]) (tags w)
          = filter (\<lambda>t. SlugName t \<in> set names) (tags w)"
    by (rule filter_cong) (auto simp: matches_def)
  then show ?thesis
    using assms
    by (simp add: GetTagListByNames_def Let_def selected_no_limit session_defs bean_conds_def)
qed

subsection \<open>Updates\<close>

lemma RemoveTag_effect:
  assumes "data_DB_error tr = None" "entity_TagStatusDeleted tr \<noteq> 0"
  shows "RemoveTag tr tagID w
           = (None, w\<lparr>tags := map (\<lambda>t. if ID t = tagID
                                        then t\<lparr>Status := entity_TagStatusDeleted tr\<rparr> else t)
                                  (tags w)\<rparr>)"
  using assms
  by (simp add: RemoveTag_def Let_def Update_def assign_def session_defs bean_defs matches_def)

lemma RemoveTag_failing:
  "data_DB_error tr = Some e \<Longrightarrow> RemoveTag tr tagID w = (Some (DatabaseError e), w)"
  by (simp add: RemoveTag_def Let_def Update_def)

lemma UpdateTagQuestionCount_effect:
  assumes "data_DB_error tr = None"
  shows "UpdateTagQuestionCount tr tagID questionCount w
           = (None, w\<lparr>tags := map (\<lambda>t. if ID t = tagID
                                        then t\<lparr>QuestionCount := questionCount\<rparr> else t)
                                  (tags w)\<rparr>)"
  using assms
  by (simp add: UpdateTagQuestionCount_def Let_def Update_def assign_def session_defs bean_defs
        matches_def)

subsection \<open>Searching by name on the example table\<close>

text \<open>
  With a non-empty name the bean still holds \<^verbatim>\<open>Recommend = false\<close> while
  \<^verbatim>\<open>UseBool("recommend")\<close> is in force, so the search leaves recommended tags out:
  the prefix \<^verbatim>\<open>g\<close> finds "golang" and not the recommended "go".
\<close>

lemma GetTagListByName_named_skips_recommended:
  "map SlugName (fst (fst (GetTagListByName example_repo ''g'' 5 True example_world)))
     = [''golang'']"
  by code_simp


subsection \<open>Every read masks and leaves the table alone\<close>

lemma mask_recommend_cleared:
  "\<not> st \<Longrightarrow> \<forall>t\<in>set (mask_recommend st rows). \<not> Recommend t"
  by (simp add: mask_recommend_def)

lemma GetTagListByIDs_shape:
  "\<exists>rows err. GetTagListByIDs tr ids w
     = ((mask_recommend (fst (tagRecommendStatus tr w)) rows, err), snd (tagRecommendStatus tr w))"
  by (simp add: GetTagListByIDs_def Let_def) blast

lemma GetTagListByName_shape:
  "\<exists>rows err. GetTagListByName tr name limit hasReserved w
     = ((mask_recommend (fst (tagRecommendStatus tr w)) rows, err), snd (tagRecommendStatus tr w))"
  by (simp add: GetTagListByName_def Let_def) blast

lemma GetRecommendTagList_shape:
  "\<exists>rows err. GetRecommendTagList tr w
     = ((mask_recommend (fst (tagRecommendStatus tr w)) rows, err), snd (tagRecommendStatus tr w))"
  by (simp add: GetRecommendTagList_def Let_def) blast

lemma GetReservedTagList_shape:
  "\<exists>rows err. GetReservedTagList tr w
     = ((mask_recommend (fst (tagRecommendStatus tr w)) rows, err), snd (tagRecommendStatus tr w))"
  by (simp add: GetReservedTagList_def Let_def) blast

lemma GetTagListByNames_shape:
  "\<exists>rows err. GetTagListByNames tr names w
     = ((mask_recommend (fst (tagRecommendStatus tr w)) rows, err), snd (tagRecommendStatus tr w))"
  by (simp add: GetTagListByNames_def Let_def) blast

lemma GetTagList_shape:
  "\<exists>rows err. GetTagList tr tag w
     = ((mask_recommend (fst (tagRecommendStatus tr w)) rows, err), snd (tagRecommendStatus tr w))"
  by (simp add: GetTagList_def Let_def) blast

lemma GetTagPage_shape:
  "\<exists>rows rest tag'. GetTagPage tr page pageSize tag queryCond w
     = ((mask_recommend (fst (tagRecommendStatus tr w)) rows, rest), tag',
        snd (tagRecommendStatus tr w))"
  by (simp add: GetTagPage_def Let_def) blast

lemma shape_masked:
  assumes "\<exists>rows err. r = ((mask_recommend st rows, err), w')" "\<not> st"
  shows "\<forall>t\<in>set (fst (fst r)). \<not> Recommend t"
  using assms mask_recommend_cleared by auto


lemma shape_tags:
  assumes "\<exists>rows err. r = ((mask_recommend st rows, err), snd (tagRecommendStatus tr w))"
  shows "tags (snd r) = tags w"
  using assms tagRecommendStatus_tags by auto

lemma GetTagPage_masked:
  "\<not> fst (tagRecommendStatus tr w) \<Longrightarrow>
   \<forall>t\<in>set (fst (fst (GetTagPage tr page pageSize tag queryCond w))). \<not> Recommend t"
  using GetTagPage_shape [of tr page pageSize tag queryCond w] mask_recommend_cleared by auto

lemma GetTagPage_tags:
  "tags (snd (snd (GetTagPage tr page pageSize tag queryCond w))) = tags w"
  by (simp add: GetTagPage_world tagRecommendStatus_tags)

subsection \<open>The configuration only enters through the mask\<close>

lemma GetTagListByIDs_config:
  assumes "data_DB_error tr' = data_DB_error tr"
    "entity_TagStatusAvailable tr' = entity_TagStatusAvailable tr"
    "fst (tagRecommendStatus tr' w) = fst (tagRecommendStatus tr w)"
  shows "fst (GetTagListByIDs tr' ids w) = fst (GetTagListByIDs tr ids w)"
  using assms by (simp add: GetTagListByIDs_def Let_def)

lemma GetTagBySlugName_config:
  assumes "data_DB_error tr' = data_DB_error tr"
    "entity_TagStatusAvailable tr' = entity_TagStatusAvailable tr"
    "fst (tagRecommendStatus tr' w) = fst (tagRecommendStatus tr w)"
  shows "fst (GetTagBySlugName tr' slugName w) = fst (GetTagBySlugName tr slugName w)"
  using assms by (simp add: GetTagBySlugName_def Let_def split: sum.splits prod.splits)

lemma GetTagListByName_config:
  assumes "data_DB_error tr' = data_DB_error tr"
    "entity_TagStatusAvailable tr' = entity_TagStatusAvailable tr"
    "fst (tagRecommendStatus tr' w) = fst (tagRecommendStatus tr w)"
  shows "fst (GetTagListByName tr' name limit hasReserved w)
           = fst (GetTagListByName tr name limit hasReserved w)"
  using assms by (simp add: GetTagListByName_def Let_def)

lemma GetRecommendTagList_config:
  assumes "data_DB_error tr' = data_DB_error tr"
    "fst (tagRecommendStatus tr' w) = fst (tagRecommendStatus tr w)"
  shows "fst (GetRecommendTagList tr' w) = fst (GetRecommendTagList tr w)"
  using assms by (simp add: GetRecommendTagList_def Let_def)

lemma GetReservedTagList_config:
  assumes "data_DB_error tr' = data_DB_error tr"
    "fst (tagRecommendStatus tr' w) = fst (tagRecommendStatus tr w)"
  shows "fst (GetReservedTagList tr' w) = fst (GetReservedTagList tr w)"
  using assms by (simp add: GetReservedTagList_def Let_def)

lemma GetTagListByNames_config:
  assumes "data_DB_error tr' = data_DB_error tr"
    "fst (tagRecommendStatus tr' w) = fst (tagRecommendStatus tr w)"
  shows "fst (GetTagListByNames tr' names w) = fst (GetTagListByNames tr names w)"
  using assms by (simp add: GetTagListByNames_def Let_def)

lemma GetTagByID_config:
  assumes "data_DB_error tr' = data_DB_error tr"
    "entity_TagStatusAvailable tr' = entity_TagStatusAvailable tr"
    "fst (tagRecommendStatus tr' w) = fst (tagRecommendStatus tr w)"
  shows "fst (GetTagByID tr' tagID w) = fst (GetTagByID tr tagID w)"
  using assms by (simp add: GetTagByID_def Let_def split: sum.splits prod.splits)

lemma GetTagList_config:
  assumes "data_DB_error tr' = data_DB_error tr"
    "entity_TagStatusAvailable tr' = entity_TagStatusAvailable tr"
    "fst (tagRecommendStatus tr' w) = fst (tagRecommendStatus tr w)"
  shows "fst (GetTagList tr' tag w) = fst (GetTagList tr tag w)"
  using assms by (simp add: GetTagList_def Let_def)

lemma GetTagPage_config:
  assumes "data_DB_error tr' = data_DB_error tr"
    "entity_TagStatusAvailable tr' = entity_TagStatusAvailable tr"
    "fst (tagRecommendStatus tr' w) = fst (tagRecommendStatus tr w)"
  shows "fst (GetTagPage tr' page pageSize tag queryCond w)
           = fst (GetTagPage tr page pageSize tag queryCond w)"
  using assms by (simp add: GetTagPage_def Let_def)

subsection \<open>A working engine returns no error\<close>

lemma GetTagListByIDs_no_error:
  "data_DB_error tr = None \<Longrightarrow> snd (fst (GetTagListByIDs tr ids w)) = None"
  by (simp add: GetTagListByIDs_def Let_def find_into_ok)

lemma GetTagBySlugName_no_error:
  "data_DB_error tr = None \<Longrightarrow> snd (snd (fst (GetTagBySlugName tr slugName w))) = None"
  by (simp add: GetTagBySlugName_def Let_def Get_def split: list.splits)

lemma GetTagListByName_no_error:
  "data_DB_error tr = None \<Longrightarrow>
   snd (fst (GetTagListByName tr name limit hasReserved w)) = None"
  by (simp add: GetTagListByName_def Let_def find_into_ok)

lemma GetRecommendTagList_no_error:
  "data_DB_error tr = None \<Longrightarrow> snd (fst (GetRecommendTagList tr w)) = None"
  by (simp add: GetRecommendTagList_def Let_def find_into_ok)

lemma GetReservedTagList_no_error:
  "data_DB_error tr = None \<Longrightarrow> snd (fst (GetReservedTagList tr w)) = None"
  by (simp add: GetReservedTagList_def Let_def find_into_ok)

lemma GetTagListByNames_no_error:
  "data_DB_error tr = None \<Longrightarrow> snd (fst (GetTagListByNames tr names w)) = None"
  by (simp add: GetTagListByNames_def Let_def find_into_ok)

lemma GetTagByID_no_error:
  "data_DB_error tr = None \<Longrightarrow> snd (snd (fst (GetTagByID tr tagID w))) = None"
  by (simp add: GetTagByID_def Let_def Get_def split: list.splits)

lemma GetTagList_no_error:
  "data_DB_error tr = None \<Longrightarrow> snd (fst (GetTagList tr tag w)) = None"
  by (simp add: GetTagList_def Let_def find_into_ok)

lemma GetTagPage_no_error:
  "data_DB_error tr = None \<Longrightarrow>
   snd (snd (fst (GetTagPage tr page pageSize tag queryCond w))) = None"
  by (simp add: GetTagPage_def Let_def pager_Help_def FindAndCount_def)

section \<open>Claims about the activity timeline\<close>

text \<open>
  C3. The label mapping is defined on every activity-type string. It marks exactly
  "voted_up", "voted_down" and "accepted" as hidden, turns "vote_up" into "upvote"
  and "vote_down" into "downvote", and passes every other label through unchanged. A
  timeline that \<open>GetObjectTimeline\<close> returns has, in order, exactly one entry for each
  loaded activity whose label is not hidden, carrying the mapped label: hidden
  activities have no entry and all others keep theirs.
\<close>

theorem formatActivity_decides_timeline:
  "(fst (formatActivity l) \<longleftrightarrow> l = ''voted_up'' \<or> l = ''voted_down'' \<or> l = ''accepted'')
   \<and> formatActivity ''vote_up'' = (False, ''upvote'')
   \<and> formatActivity ''vote_down'' = (False, ''downvote'')
   \<and> (l \<notin> {''voted_up'', ''voted_down'', ''accepted'', ''vote_up'', ''vote_down''}
        \<longrightarrow> formatActivity l = (False, l))
   \<and> (GetObjectTimeline as req lg = (Inr resp, lg') \<longrightarrow>
        (\<exists>acts. activityRepo_GetObjectAllActivity as (req_ObjectID req) (req_ShowVote req)
                  = Inr acts
           \<and> list_all2
                (\<lambda>item act. item_ActivityID item = act_ID act
                   \<and> item_ActivityType item = snd (formatActivity (activity_label as act)))
                (resp_Timeline resp)
                (filter (\<lambda>act. \<not> fst (formatActivity (activity_label as act))) acts)))"
proof -
  have labels: "(fst (formatActivity l) \<longleftrightarrow> l = ''voted_up'' \<or> l = ''voted_down'' \<or> l = ''accepted'')"
    "formatActivity ''vote_up'' = (False, ''upvote'')"
    "formatActivity ''vote_down'' = (False, ''downvote'')"
    "l \<notin> {''voted_up'', ''voted_down'', ''accepted'', ''vote_up'', ''vote_down''}
       \<longrightarrow> formatActivity l = (False, l)"
    by (simp_all add: formatActivity_def)
  have same_filter: "(\<lambda>act. \<not> fst (formatActivity (activity_label as act))) = shown as"
    by (simp add: fun_eq_iff shown_def formatActivity_fst)
  have entries: "\<exists>acts. activityRepo_GetObjectAllActivity as (req_ObjectID req) (req_ShowVote req)
                  = Inr acts
           \<and> list_all2
                (\<lambda>item act. item_ActivityID item = act_ID act
                   \<and> item_ActivityType item = snd (formatActivity (activity_label as act)))
                (resp_Timeline resp)
                (filter (\<lambda>act. \<not> fst (formatActivity (activity_label as act))) acts)"
    if r: "GetObjectTimeline as req lg = (Inr resp, lg')"
  proof -
    from GetObjectTimeline_entries [OF r] obtain acts where
      acts: "activityRepo_GetObjectAllActivity as (req_ObjectID req) (req_ShowVote req) = Inr acts"
      and l: "list_all2 (renders as) (resp_Timeline resp) (filter (shown as) acts)" by blast
    have "list_all2
            (\<lambda>item act. item_ActivityID item = act_ID act
               \<and> item_ActivityType item = snd (formatActivity (activity_label as act)))
            (resp_Timeline resp) (filter (shown as) acts)"
    proof (rule list_all2_mono_right [OF l])
      fix item act
      assume "act \<in> set (filter (shown as) acts)" "renders as item act"
      then show "item_ActivityID item = act_ID act
               \<and> item_ActivityType item = snd (formatActivity (activity_label as act))"
        by (simp add: renders_def shown_def formatActivity_snd)
    qed
    with acts show ?thesis unfolding same_filter by blast
  qed
  from labels entries show ?thesis by blast
qed

theorem formatActivity_decides_timeline_witness:
  "''edited'' \<notin> {''voted_up'', ''voted_down'', ''accepted'', ''vote_up'', ''vote_down''}
   \<and> formatActivity ''edited'' = (False, ''edited'')
   \<and> (\<exists>resp lg'. GetObjectTimeline example_service example_req [] = (Inr resp, lg')
        \<and> map item_ActivityID (resp_Timeline resp) = [''a2'', ''a3'', ''a4'']
        \<and> list_all2
             (\<lambda>item act. item_ActivityID item = act_ID act
                \<and> item_ActivityType item
                    = snd (formatActivity (activity_label example_service act)))
             (resp_Timeline resp)
             (filter (\<lambda>act. \<not> fst (formatActivity (activity_label example_service act)))
                example_activities))"
proof -
  obtain resp lg' where
    r: "GetObjectTimeline example_service example_req [] = (Inr resp, lg')"
    and ids: "map item_ActivityID (resp_Timeline resp) = [''a2'', ''a3'', ''a4'']"
    by (simp add: timeline_eval example_defs)
  have acts: "activityRepo_GetObjectAllActivity example_service (req_ObjectID example_req)
      (req_ShowVote example_req) = Inr example_activities"
    by (simp add: example_service_def example_req_def)
  from formatActivity_decides_timeline [of "''edited''" example_service example_req "[]" resp lg']
    r ids acts
  show ?thesis by auto
qed

text \<open>
  C1, as amended. \<open>GetObjectTimeline\<close> fails exactly when the object info cannot be
  loaded, when the activity list cannot be loaded, or when the user lookup of an
  activity that is displayed returns an error. \<open>getOneObjectDetail\<close> fails exactly
  when the revision or the object info of the revision cannot be loaded, and
  \<open>GetObjectTimelineDetail\<close> exactly when one of its two details does. Nothing else
  aborts a response: a user lookup that finds no user leaves both name fields empty in
  an entry that still appears; a comment that cannot be loaded is logged and leaves the
  comment field empty; a revision content that cannot be decoded and an unknown object
  type are logged and give the empty detail.
\<close>

theorem only_loading_failures_propagate:
  "(isl (fst (GetObjectTimeline as req lg)) \<longleftrightarrow>
      (case objectInfoService_GetInfo as (req_ObjectID req) of
         Inl e \<Rightarrow> True
       | Inr objInfo \<Rightarrow>
           (case activityRepo_GetObjectAllActivity as (req_ObjectID req) (req_ShowVote req) of
              Inl e \<Rightarrow> True
            | Inr acts \<Rightarrow>
                \<exists>act\<in>set acts. \<not> fst (formatActivity (activity_label as act))
                   \<and> isl (userCommon_GetUserBasicInfoByID as (act_UserID act)))))
   \<and> (isl (fst (getOneObjectDetail as revisionID lg)) \<longleftrightarrow>
        (case revisionService_GetRevision as revisionID of
           Inl e \<Rightarrow> True
         | Inr revision \<Rightarrow> isl (objectInfoService_GetInfo as (rev_ObjectID revision))))
   \<and> (isl (fst (GetObjectTimelineDetail as dreq lg)) \<longleftrightarrow>
        isl (fst (getOneObjectDetail as (req_OldRevisionID dreq) lg))
        \<or> isl (fst (getOneObjectDetail as (req_NewRevisionID dreq) lg)))
   \<and> (\<not> fst (formatActivity (activity_label as act))
        \<and> userCommon_GetUserBasicInfoByID as (act_UserID act) = Inr (u, False) \<longrightarrow>
        (\<exists>item lg'. timeline_item as act lg = (Inr (Some item), lg')
           \<and> item_ActivityID item = act_ID act
           \<and> item_Username item = [] \<and> item_UserDisplayName item = []))
   \<and> (\<not> fst (formatActivity (activity_label as act))
        \<and> userCommon_GetUserBasicInfoByID as (act_UserID act) = Inr (u, ex)
        \<and> fst (Cut (map_index (config_ID2KeyMapping as) (act_ActivityType act)) ''.'')
            = CommentObjectType
        \<and> commentCommonService_GetComment as (act_ObjectID act) = Inl e \<longrightarrow>
        (\<exists>item. timeline_item as act lg = (Inr (Some item), lg @ [Log [] [ArgErr e]])
           \<and> item_ActivityID item = act_ID act \<and> item_Comment item = []))
   \<and> (revisionService_GetRevision as revisionID = Inr revision
        \<and> objectInfoService_GetInfo as (rev_ObjectID revision) = Inr objInfo
        \<and> ((obj_ObjectType objInfo = QuestionObjectType
              \<and> isl (json_Unmarshal_Question as (rev_Content revision)))
           \<or> (obj_ObjectType objInfo = AnswerObjectType
              \<and> isl (json_Unmarshal_Answer as (rev_Content revision)))
           \<or> (obj_ObjectType objInfo = TagObjectType
              \<and> isl (json_Unmarshal_Tag as (rev_Content revision)))
           \<or> obj_ObjectType objInfo \<notin> {QuestionObjectType, AnswerObjectType, TagObjectType})
        \<longrightarrow>
        (\<exists>entry. getOneObjectDetail as revisionID lg
           = (Inr \<lparr>det_Title = [], det_Tags = [], det_OriginalText = []\<rparr>, lg @ [entry])))"
proof -
  have same: "\<And>act. (\<not> fst (formatActivity (activity_label as act))
                \<and> isl (userCommon_GetUserBasicInfoByID as (act_UserID act)))
              = (shown as act \<and> user_fails as act)"
    by (simp add: shown_def user_fails_def formatActivity_fst)
  have timeline: "isl (fst (GetObjectTimeline as req lg)) \<longleftrightarrow>
      (case objectInfoService_GetInfo as (req_ObjectID req) of
         Inl e \<Rightarrow> True
       | Inr objInfo \<Rightarrow>
           (case activityRepo_GetObjectAllActivity as (req_ObjectID req) (req_ShowVote req) of
              Inl e \<Rightarrow> True
            | Inr acts \<Rightarrow>
                \<exists>act\<in>set acts. \<not> fst (formatActivity (activity_label as act))
                   \<and> isl (userCommon_GetUserBasicInfoByID as (act_UserID act))))"
    unfolding same by (rule GetObjectTimeline_fails)
  note detail = getOneObjectDetail_fails [of as revisionID lg]
  note pair = GetObjectTimelineDetail_fails [of as dreq lg]
  note missing = timeline_item_user_missing [of as act u lg]
  note comment = timeline_item_comment_error [of as act u ex e lg]
  note decode = getOneObjectDetail_degrades [of as revisionID revision objInfo lg]
  from timeline detail pair missing comment decode show ?thesis by blast
qed

text \<open>
  The claim as stated fails where the user store is unreachable: the object info and
  the activity list are loaded, and the request still fails with the error of the user
  lookup.
\<close>

theorem user_lookup_error_aborts_timeline:
  "\<not> isl (objectInfoService_GetInfo failing_user_service (req_ObjectID example_req))
   \<and> \<not> isl (activityRepo_GetObjectAllActivity failing_user_service (req_ObjectID example_req)
             (req_ShowVote example_req))
   \<and> GetObjectTimeline failing_user_service example_req []
       = (Inl (Failure ''user store unreachable''), [])"
  by (simp add: timeline_eval example_defs)

theorem only_loading_failures_propagate_witness:
  "isl (fst (GetObjectTimeline failing_user_service example_req []))
   \<and> \<not> isl (fst (GetObjectTimeline example_service example_req []))
   \<and> isl (fst (getOneObjectDetail example_service ''r0'' []))
   \<and> \<not> isl (fst (GetObjectTimelineDetail example_service
             \<lparr>req_OldRevisionID = ''r1'', req_NewRevisionID = ''r2''\<rparr> []))
   \<and> (\<exists>item lg'. timeline_item example_service (example_activities ! 2) []
          = (Inr (Some item), lg')
        \<and> item_ActivityID item = ''a3''
        \<and> item_Username item = [] \<and> item_UserDisplayName item = [])
   \<and> (\<exists>item. timeline_item example_service (example_activities ! 2) []
          = (Inr (Some item), [Log [] [ArgErr (Failure ''comment not found'')]])
        \<and> item_ActivityID item = ''a3'' \<and> item_Comment item = [])
   \<and> (\<exists>entry. getOneObjectDetail example_service ''r1'' []
          = (Inr \<lparr>det_Title = [], det_Tags = [], det_OriginalText = []\<rparr>, [entry]))
   \<and> (\<exists>entry. getOneObjectDetail example_service ''r2'' []
          = (Inr \<lparr>det_Title = [], det_Tags = [], det_OriginalText = []\<rparr>, [entry]))"
proof -
  let ?dreq = "\<lparr>req_OldRevisionID = ''r1'', req_NewRevisionID = ''r2''\<rparr>"
  let ?a3 = "example_activities ! 2"
  let ?u = "\<lparr>usr_Username = [], usr_DisplayName = []\<rparr>"
  let ?q = "\<lparr>obj_Title = ''How?'', obj_ObjectType = ''question'', obj_QuestionID = ''q1'',
            obj_AnswerID = []\<rparr>"
  let ?x = "\<lparr>obj_Title = ''Report'', obj_ObjectType = ''report'', obj_QuestionID = [],
            obj_AnswerID = []\<rparr>"
  have a3: "?a3 = \<lparr>act_ID = ''a3'', act_CreatedAt = 62135596902, act_CancelledAt = 0,
      act_UserID = ''u2'', act_ObjectID = ''c1'', act_ActivityType = 3, act_Cancelled = 0,
      act_RevisionID = 0\<rparr>"
    by (simp add: example_activities_def)
  have failing: "isl (fst (GetObjectTimeline failing_user_service example_req []))"
    using only_loading_failures_propagate [of failing_user_service example_req "[]"]
    by (simp add: example_defs activity_label_def map_index_def formatActivity_def)
  have ok: "\<not> isl (fst (GetObjectTimeline example_service example_req []))"
    using only_loading_failures_propagate [of example_service example_req "[]"]
    by (simp add: example_defs activity_label_def map_index_def formatActivity_def)
  have r0: "isl (fst (getOneObjectDetail example_service ''r0'' []))"
    using only_loading_failures_propagate [of example_service _ "[]" "''r0''"]
    by (simp add: example_defs)
  have r1: "\<not> isl (fst (getOneObjectDetail example_service ''r1'' []))"
    using only_loading_failures_propagate [of example_service _ "[]" "''r1''"]
    by (simp add: example_defs)
  have r2: "\<not> isl (fst (getOneObjectDetail example_service ''r2'' []))"
    using only_loading_failures_propagate [of example_service _ "[]" "''r2''"]
    by (simp add: example_defs)
  have pair: "\<not> isl (fst (GetObjectTimelineDetail example_service ?dreq []))"
    using only_loading_failures_propagate [of example_service _ "[]" _ ?dreq] r1 r2
    by simp
  have missing: "\<exists>item lg'. timeline_item example_service ?a3 [] = (Inr (Some item), lg')
        \<and> item_ActivityID item = ''a3''
        \<and> item_Username item = [] \<and> item_UserDisplayName item = []"
    using only_loading_failures_propagate [of example_service _ "[]" _ _ ?a3 ?u]
    by (simp add: a3 example_service_def activity_label_def map_index_def formatActivity_def)
  have comment: "\<exists>item. timeline_item example_service ?a3 []
          = (Inr (Some item), [Log [] [ArgErr (Failure ''comment not found'')]])
        \<and> item_ActivityID item = ''a3'' \<and> item_Comment item = []"
    using only_loading_failures_propagate [of example_service _ "[]" _ _ ?a3 ?u False
        "Failure ''comment not found''"]
    by (simp add: a3 example_service_def activity_label_def map_index_def formatActivity_def
          CommentObjectType_def)
  have decode: "\<exists>entry. getOneObjectDetail example_service ''r1'' []
          = (Inr \<lparr>det_Title = [], det_Tags = [], det_OriginalText = []\<rparr>, [entry])"
    using only_loading_failures_propagate [of example_service _ "[]" "''r1''" _ _ _ _ _
        "\<lparr>rev_ObjectID = ''q1'', rev_Content = ''{''\<rparr>" ?q]
    by (simp add: example_service_def QuestionObjectType_def)
  have unknown: "\<exists>entry. getOneObjectDetail example_service ''r2'' []
          = (Inr \<lparr>det_Title = [], det_Tags = [], det_OriginalText = []\<rparr>, [entry])"
    using only_loading_failures_propagate [of example_service _ "[]" "''r2''" _ _ _ _ _
        "\<lparr>rev_ObjectID = ''x1'', rev_Content = ''{}''\<rparr>" ?x]
    by (simp add: example_service_def QuestionObjectType_def AnswerObjectType_def
          TagObjectType_def)
  from failing ok r0 pair missing comment decode unknown show ?thesis by blast
qed

section \<open>Claims about the tag repository\<close>

text \<open>
  C2. When the site configuration is read and its "tag required" flag is false, each
  of the nine reads that return tags returns only rows whose recommend field is false,
  whatever the stored rows hold, and leaves the tag table as it was.
\<close>

theorem reads_mask_recommend:
  assumes "siteInfoService_GetSiteWrite tr = Inr tagconfig" and "\<not> RequiredTag tagconfig"
  shows "((\<forall>t\<in>set (fst (fst (GetTagListByIDs tr ids w))). \<not> Recommend t)
          \<and> tags (snd (GetTagListByIDs tr ids w)) = tags w)
    \<and> ((\<forall>t. fst (fst (GetTagBySlugName tr slugName w)) = Some t \<longrightarrow> \<not> Recommend t)
          \<and> tags (snd (GetTagBySlugName tr slugName w)) = tags w)
    \<and> ((\<forall>t\<in>set (fst (fst (GetTagListByName tr name limit hasReserved w))). \<not> Recommend t)
          \<and> tags (snd (GetTagListByName tr name limit hasReserved w)) = tags w)
    \<and> ((\<forall>t\<in>set (fst (fst (GetRecommendTagList tr w))). \<not> Recommend t)
          \<and> tags (snd (GetRecommendTagList tr w)) = tags w)
    \<and> ((\<forall>t\<in>set (fst (fst (GetReservedTagList tr w))). \<not> Recommend t)
          \<and> tags (snd (GetReservedTagList tr w)) = tags w)
    \<and> ((\<forall>t\<in>set (fst (fst (GetTagListByNames tr names w))). \<not> Recommend t)
          \<and> tags (snd (GetTagListByNames tr names w)) = tags w)
    \<and> ((\<forall>t. fst (fst (GetTagByID tr tagID w)) = Some t \<longrightarrow> \<not> Recommend t)
          \<and> tags (snd (GetTagByID tr tagID w)) = tags w)
    \<and> ((\<forall>t\<in>set (fst (fst (GetTagList tr tag w))). \<not> Recommend t)
          \<and> tags (snd (GetTagList tr tag w)) = tags w)
    \<and> ((\<forall>t\<in>set (fst (fst (GetTagPage tr page pageSize tag queryCond w))). \<not> Recommend t)
          \<and> tags (snd (snd (GetTagPage tr page pageSize tag queryCond w))) = tags w)"
proof -
  from assms have off: "\<not> fst (tagRecommendStatus tr w)"
    by (simp add: tagRecommendStatus_fst)
  note ids = shape_masked [OF GetTagListByIDs_shape off, of ids]
    shape_tags [OF GetTagListByIDs_shape, of tr ids w]
  have slug: "\<forall>t. fst (fst (GetTagBySlugName tr slugName w)) = Some t \<longrightarrow> \<not> Recommend t"
  proof (intro allI impI)
    fix t assume "fst (fst (GetTagBySlugName tr slugName w)) = Some t"
    then have "fst (GetTagBySlugName tr slugName w)
        = (Some t, fst (snd (fst (GetTagBySlugName tr slugName w))),
           snd (snd (fst (GetTagBySlugName tr slugName w))))"
      by (simp add: prod_eq_iff)
    from GetTagBySlugName_masked [OF this off] show "\<not> Recommend t" .
  qed
  note byname = shape_masked [OF GetTagListByName_shape off, of name limit hasReserved]
    shape_tags [OF GetTagListByName_shape, of tr name limit hasReserved w]
  note recommend = shape_masked [OF GetRecommendTagList_shape off]
    shape_tags [OF GetRecommendTagList_shape, of tr w]
  note reserved = shape_masked [OF GetReservedTagList_shape off]
    shape_tags [OF GetReservedTagList_shape, of tr w]
  note names = shape_masked [OF GetTagListByNames_shape off, of names]
    shape_tags [OF GetTagListByNames_shape, of tr names w]
  have byid: "\<forall>t. fst (fst (GetTagByID tr tagID w)) = Some t \<longrightarrow> \<not> Recommend t"
  proof (intro allI impI)
    fix t assume "fst (fst (GetTagByID tr tagID w)) = Some t"
    then have "fst (GetTagByID tr tagID w)
        = (Some t, fst (snd (fst (GetTagByID tr tagID w))),
           snd (snd (fst (GetTagByID tr tagID w))))"
      by (simp add: prod_eq_iff)
    from GetTagByID_masked [OF this off] show "\<not> Recommend t" .
  qed
  note list = shape_masked [OF GetTagList_shape off, of tag]
    shape_tags [OF GetTagList_shape, of tr tag w]
  note page = GetTagPage_masked [OF off, of page pageSize tag queryCond]
    GetTagPage_tags [of tr page pageSize tag queryCond w]
  from ids slug GetTagBySlugName_tags [of tr slugName w] byname recommend reserved names
    byid GetTagByID_tags [of tr tagID w] list page
  show ?thesis by blast
qed

theorem reads_mask_recommend_witness:
  "siteInfoService_GetSiteWrite repo_tags_optional = Inr \<lparr>RequiredTag = False\<rparr>
   \<and> \<not> RequiredTag \<lparr>RequiredTag = False\<rparr>
   \<and> map (\<lambda>t. (ID t, Recommend t)) (tags example_world)
       = [(''1'', True), (''2'', False), (''3'', True), (''4'', True), (''5'', True)]
   \<and> map ID (fst (fst (GetTagListByIDs repo_tags_optional [''1'', ''3'', ''5''] example_world)))
       = [''5'', ''1'']
   \<and> list_all (\<lambda>t. \<not> Recommend t)
        (fst (fst (GetTagListByIDs repo_tags_optional [''1'', ''3'', ''5''] example_world)))
   \<and> map ID (fst (fst (GetRecommendTagList repo_tags_optional example_world)))
       = [''4'', ''5'', ''1'', ''3'']
   \<and> list_all (\<lambda>t. \<not> Recommend t)
        (fst (fst (GetRecommendTagList repo_tags_optional example_world)))
   \<and> map_option ID (fst (fst (GetTagByID repo_tags_optional ''1'' example_world))) = Some ''1''
   \<and> map_option Recommend (fst (fst (GetTagByID repo_tags_optional ''1'' example_world)))
       = Some False
   \<and> tags (snd (GetTagByID repo_tags_optional ''1'' example_world)) = tags example_world"
proof -
  have cfg: "siteInfoService_GetSiteWrite repo_tags_optional = Inr \<lparr>RequiredTag = False\<rparr>"
    by (simp add: repo_tags_optional_def)
  have off: "\<not> RequiredTag \<lparr>RequiredTag = False\<rparr>" by simp
  have stored: "map (\<lambda>t. (ID t, Recommend t)) (tags example_world)
       = [(''1'', True), (''2'', False), (''3'', True), (''4'', True), (''5'', True)]"
    by code_simp
  have returned:
    "map ID (fst (fst (GetTagListByIDs repo_tags_optional [''1'', ''3'', ''5''] example_world)))
       = [''5'', ''1'']"
    "map ID (fst (fst (GetRecommendTagList repo_tags_optional example_world)))
       = [''4'', ''5'', ''1'', ''3'']"
    "map_option ID (fst (fst (GetTagByID repo_tags_optional ''1'' example_world))) = Some ''1''"
    by code_simp+
  note inst = reads_mask_recommend [OF cfg off, of "[''1'', ''3'', ''5'']" example_world "[]"
      "[]" 5 False "[]" "''1''" Tag_zero 1 10 "[]"]
  note c1 = inst [THEN conjunct1]
  note c4 = inst [THEN conjunct2, THEN conjunct2, THEN conjunct2, THEN conjunct1]
  note c7 = inst [THEN conjunct2, THEN conjunct2, THEN conjunct2, THEN conjunct2,
      THEN conjunct2, THEN conjunct2, THEN conjunct1]
  from c1 have ids: "list_all (\<lambda>t. \<not> Recommend t)
        (fst (fst (GetTagListByIDs repo_tags_optional [''1'', ''3'', ''5''] example_world)))"
    by (simp add: list_all_iff)
  from c4 have recommend: "list_all (\<lambda>t. \<not> Recommend t)
        (fst (fst (GetRecommendTagList repo_tags_optional example_world)))"
    by (simp add: list_all_iff)
  note one = c7 [THEN conjunct1]
  note same = c7 [THEN conjunct2]
  from returned(3) one
  have byid: "map_option Recommend (fst (fst (GetTagByID repo_tags_optional ''1'' example_world)))
       = Some False"
    by (cases "fst (fst (GetTagByID repo_tags_optional ''1'' example_world))") simp_all
  from cfg off stored returned ids recommend byid same show ?thesis by (intro conjI)
qed

text \<open>
  C10. When the site configuration cannot be read, \<open>tagRecommendStatus\<close> logs the
  error and returns false. Each of the nine reads then returns what it returns when
  the configuration is read with "tag required" false: every returned row has its
  recommend field false, and the error of the configuration read is not returned to
  the caller, who gets no error at all from a working engine.
\<close>

theorem unreadable_configuration_masks_recommend:
  assumes "siteInfoService_GetSiteWrite tr = Inl e"
    and "tr' = tr\<lparr>siteInfoService_GetSiteWrite := Inr \<lparr>RequiredTag = False\<rparr>\<rparr>"
  shows "tagRecommendStatus tr w
           = (False, w\<lparr>logs := logs w @ [Log ''siteInfoService.GetSiteWrite error'' [ArgErr e]]\<rparr>)
    \<and> (fst (GetTagListByIDs tr ids w) = fst (GetTagListByIDs tr' ids w)
        \<and> (\<forall>t\<in>set (fst (fst (GetTagListByIDs tr ids w))). \<not> Recommend t)
        \<and> (data_DB_error tr = None \<longrightarrow> snd (fst (GetTagListByIDs tr ids w)) = None))
    \<and> (fst (GetTagBySlugName tr slugName w) = fst (GetTagBySlugName tr' slugName w)
        \<and> (\<forall>t. fst (fst (GetTagBySlugName tr slugName w)) = Some t \<longrightarrow> \<not> Recommend t)
        \<and> (data_DB_error tr = None \<longrightarrow> snd (snd (fst (GetTagBySlugName tr slugName w))) = None))
    \<and> (fst (GetTagListByName tr name limit hasReserved w)
          = fst (GetTagListByName tr' name limit hasReserved w)
        \<and> (\<forall>t\<in>set (fst (fst (GetTagListByName tr name limit hasReserved w))). \<not> Recommend t)
        \<and> (data_DB_error tr = None \<longrightarrow>
              snd (fst (GetTagListByName tr name limit hasReserved w)) = None))
    \<and> (fst (GetRecommendTagList tr w) = fst (GetRecommendTagList tr' w)
        \<and> (\<forall>t\<in>set (fst (fst (GetRecommendTagList tr w))). \<not> Recommend t)
        \<and> (data_DB_error tr = None \<longrightarrow> snd (fst (GetRecommendTagList tr w)) = None))
    \<and> (fst (GetReservedTagList tr w) = fst (GetReservedTagList tr' w)
        \<and> (\<forall>t\<in>set (fst (fst (GetReservedTagList tr w))). \<not> Recommend t)
        \<and> (data_DB_error tr = None \<longrightarrow> snd (fst (GetReservedTagList tr w)) = None))
    \<and> (fst (GetTagListByNames tr names w) = fst (GetTagListByNames tr' names w)
        \<and> (\<forall>t\<in>set (fst (fst (GetTagListByNames tr names w))). \<not> Recommend t)
        \<and> (data_DB_error tr = None \<longrightarrow> snd (fst (GetTagListByNames tr names w)) = None))
    \<and> (fst (GetTagByID tr tagID w) = fst (GetTagByID tr' tagID w)
        \<and> (\<forall>t. fst (fst (GetTagByID tr tagID w)) = Some t \<longrightarrow> \<not> Recommend t)
        \<and> (data_DB_error tr = None \<longrightarrow> snd (snd (fst (GetTagByID tr tagID w))) = None))
    \<and> (fst (GetTagList tr tag w) = fst (GetTagList tr' tag w)
        \<and> (\<forall>t\<in>set (fst (fst (GetTagList tr tag w))). \<not> Recommend t)
        \<and> (data_DB_error tr = None \<longrightarrow> snd (fst (GetTagList tr tag w)) = None))
    \<and> (fst (GetTagPage tr page pageSize tag queryCond w)
          = fst (GetTagPage tr' page pageSize tag queryCond w)
        \<and> (\<forall>t\<in>set (fst (fst (GetTagPage tr page pageSize tag queryCond w))). \<not> Recommend t)
        \<and> (data_DB_error tr = None \<longrightarrow>
              snd (snd (fst (GetTagPage tr page pageSize tag queryCond w))) = None))"
proof -
  from assms(1) have status: "tagRecommendStatus tr w
      = (False, w\<lparr>logs := logs w @ [Log ''siteInfoService.GetSiteWrite error'' [ArgErr e]]\<rparr>)"
    by (simp add: tagRecommendStatus_def)
  then have off: "\<not> fst (tagRecommendStatus tr w)" by simp
  from assms have same: "data_DB_error tr = data_DB_error tr'"
    "entity_TagStatusAvailable tr = entity_TagStatusAvailable tr'"
    "fst (tagRecommendStatus tr w) = fst (tagRecommendStatus tr' w)"
    by (simp_all add: tagRecommendStatus_fst)
  have slug: "\<forall>t. fst (fst (GetTagBySlugName tr slugName w)) = Some t \<longrightarrow> \<not> Recommend t"
  proof (intro allI impI)
    fix t assume "fst (fst (GetTagBySlugName tr slugName w)) = Some t"
    then have "fst (GetTagBySlugName tr slugName w)
        = (Some t, fst (snd (fst (GetTagBySlugName tr slugName w))),
           snd (snd (fst (GetTagBySlugName tr slugName w))))"
      by (simp add: prod_eq_iff)
    from GetTagBySlugName_masked [OF this off] show "\<not> Recommend t" .
  qed
  have byid: "\<forall>t. fst (fst (GetTagByID tr tagID w)) = Some t \<longrightarrow> \<not> Recommend t"
  proof (intro allI impI)
    fix t assume "fst (fst (GetTagByID tr tagID w)) = Some t"
    then have "fst (GetTagByID tr tagID w)
        = (Some t, fst (snd (fst (GetTagByID tr tagID w))),
           snd (snd (fst (GetTagByID tr tagID w))))"
      by (simp add: prod_eq_iff)
    from GetTagByID_masked [OF this off] show "\<not> Recommend t" .
  qed
  note a1 = GetTagListByIDs_config [OF same, of ids]
    shape_masked [OF GetTagListByIDs_shape off, of ids]
    GetTagListByIDs_no_error [of tr ids w]
  note a2 = GetTagBySlugName_config [OF same, of slugName] slug
    GetTagBySlugName_no_error [of tr slugName w]
  note a3 = GetTagListByName_config [OF same, of name limit hasReserved]
    shape_masked [OF GetTagListByName_shape off, of name limit hasReserved]
    GetTagListByName_no_error [of tr name limit hasReserved w]
  note a4 = GetRecommendTagList_config [OF same(1,3)]
    shape_masked [OF GetRecommendTagList_shape off]
    GetRecommendTagList_no_error [of tr w]
  note a5 = GetReservedTagList_config [OF same(1,3)]
    shape_masked [OF GetReservedTagList_shape off]
    GetReservedTagList_no_error [of tr w]
  note a6 = GetTagListByNames_config [OF same(1,3), of names]
    shape_masked [OF GetTagListByNames_shape off, of names]
    GetTagListByNames_no_error [of tr names w]
  note a7 = GetTagByID_config [OF same, of tagID] byid GetTagByID_no_error [of tr tagID w]
  note a8 = GetTagList_config [OF same, of tag]
    shape_masked [OF GetTagList_shape off, of tag]
    GetTagList_no_error [of tr tag w]
  note a9 = GetTagPage_config [OF same, of page pageSize tag queryCond]
    GetTagPage_masked [OF off, of page pageSize tag queryCond]
    GetTagPage_no_error [of tr page pageSize tag queryCond w]
  from status a1 a2 a3 a4 a5 a6 a7 a8 a9 show ?thesis by blast
qed

theorem unreadable_configuration_masks_recommend_witness:
  "siteInfoService_GetSiteWrite repo_config_unreadable = Inl (Failure ''site info unavailable'')
   \<and> repo_tags_optional
       = repo_config_unreadable\<lparr>siteInfoService_GetSiteWrite := Inr \<lparr>RequiredTag = False\<rparr>\<rparr>
   \<and> data_DB_error repo_config_unreadable = None
   \<and> tagRecommendStatus repo_config_unreadable example_world
       = (False, example_world\<lparr>logs :=
            [Log ''siteInfoService.GetSiteWrite error'' [ArgErr (Failure ''site info unavailable'')]]\<rparr>)
   \<and> fst (GetTagListByName repo_config_unreadable [] 5 False example_world)
       = fst (GetTagListByName repo_tags_optional [] 5 False example_world)
   \<and> map (\<lambda>t. (SlugName t, Recommend t))
        (fst (fst (GetTagListByName repo_config_unreadable [] 5 False example_world)))
       = [(''ab'', False), (''ada'', False), (''go'', False)]
   \<and> snd (fst (GetTagListByName repo_config_unreadable [] 5 False example_world)) = None"
proof -
  have cfg: "siteInfoService_GetSiteWrite repo_config_unreadable
      = Inl (Failure ''site info unavailable'')"
    by (simp add: repo_config_unreadable_def)
  have other: "repo_tags_optional
      = repo_config_unreadable\<lparr>siteInfoService_GetSiteWrite := Inr \<lparr>RequiredTag = False\<rparr>\<rparr>"
    by (simp add: repo_tags_optional_def repo_config_unreadable_def)
  have engine: "data_DB_error repo_config_unreadable = None"
    by (simp add: repo_config_unreadable_def example_repo_def)
  have logs: "logs example_world = []" by (simp add: example_world_def)
  have rows: "map (\<lambda>t. (SlugName t, Recommend t))
        (fst (fst (GetTagListByName repo_config_unreadable [] 5 False example_world)))
       = [(''ab'', False), (''ada'', False), (''go'', False)]"
    by code_simp
  note inst = unreadable_configuration_masks_recommend [OF cfg other, of example_world "[]" "[]"
      "[]" 5 False "[]" "[]" Tag_zero 1 10 "[]"]
  from inst logs have status: "tagRecommendStatus repo_config_unreadable example_world
       = (False, example_world\<lparr>logs :=
            [Log ''siteInfoService.GetSiteWrite error'' [ArgErr (Failure ''site info unavailable'')]]\<rparr>)"
    by simp
  from inst engine have same: "fst (GetTagListByName repo_config_unreadable [] 5 False example_world)
       = fst (GetTagListByName repo_tags_optional [] 5 False example_world)"
    and silent: "snd (fst (GetTagListByName repo_config_unreadable [] 5 False example_world)) = None"
    by blast+
  from cfg other engine status same rows silent show ?thesis by blast
qed

text \<open>
  C4, as amended. Called with an empty name, limit 5 and \<open>hasReserved\<close> false,
  \<open>GetTagListByName\<close> returns at most 5 rows in ascending order of slug name, each
  read from a stored tag that is recommended, not reserved and available; the
  recommend field of a returned row is true only when the site requires tags, and
  false otherwise. With a non-empty name every returned row has a slug name that
  matches the pattern made of the name followed by \<^verbatim>\<open>%\<close>, which is a prefix match when
  the name holds neither \<^verbatim>\<open>%\<close> nor \<^verbatim>\<open>_\<close>.
\<close>

theorem GetTagListByName_selection:
  "(int (length (fst (fst (GetTagListByName tr [] 5 False w)))) \<le> 5
    \<and> sorted_wrt (\<lambda>a b. SlugName a \<le> SlugName b) (fst (fst (GetTagListByName tr [] 5 False w)))
    \<and> (\<forall>r\<in>set (fst (fst (GetTagListByName tr [] 5 False w))).
          \<not> Reserved r \<and> Status r = entity_TagStatusAvailable tr
          \<and> Recommend r = (case siteInfoService_GetSiteWrite tr of
                              Inl e \<Rightarrow> False | Inr tagconfig \<Rightarrow> RequiredTag tagconfig)
          \<and> (\<exists>t\<in>set (tags w). Recommend t \<and> r = t\<lparr>Recommend := Recommend r\<rparr>)))
   \<and> (name \<noteq> [] \<longrightarrow>
        (\<forall>r\<in>set (fst (fst (GetTagListByName tr name limit hasReserved w))).
           sql_like (name @ ''%'') (SlugName r)
           \<and> (wildcard_free name \<longrightarrow> prefix name (SlugName r))))"
proof -
  have short: "int (length (fst (fst (GetTagListByName tr [] 5 False w)))) \<le> 5"
    by (rule GetTagListByName_limited) simp
  note sorted = GetTagListByName_sorted [of tr "[]" 5 False w]
  have rows: "\<forall>r\<in>set (fst (fst (GetTagListByName tr [] 5 False w))).
          \<not> Reserved r \<and> Status r = entity_TagStatusAvailable tr
          \<and> Recommend r = (case siteInfoService_GetSiteWrite tr of
                              Inl e \<Rightarrow> False | Inr tagconfig \<Rightarrow> RequiredTag tagconfig)
          \<and> (\<exists>t\<in>set (tags w). Recommend t \<and> r = t\<lparr>Recommend := Recommend r\<rparr>)"
  proof
    fix r assume "r \<in> set (fst (fst (GetTagListByName tr [] 5 False w)))"
    from GetTagListByName_row [OF this] obtain t where t: "t \<in> set (tags w)"
      and r: "r = read_of tr w t" and p: "Status t = entity_TagStatusAvailable tr"
        "Recommend t" "\<not> Reserved t" by auto
    from r p have "\<not> Reserved r" "Status r = entity_TagStatusAvailable tr"
      "Recommend r = (case siteInfoService_GetSiteWrite tr of
                        Inl e \<Rightarrow> False | Inr tagconfig \<Rightarrow> RequiredTag tagconfig)"
      "r = t\<lparr>Recommend := Recommend r\<rparr>"
      by (simp_all add: read_of_def tagRecommendStatus_fst)
    with t p(2) show "\<not> Reserved r \<and> Status r = entity_TagStatusAvailable tr
          \<and> Recommend r = (case siteInfoService_GetSiteWrite tr of
                              Inl e \<Rightarrow> False | Inr tagconfig \<Rightarrow> RequiredTag tagconfig)
          \<and> (\<exists>t\<in>set (tags w). Recommend t \<and> r = t\<lparr>Recommend := Recommend r\<rparr>)"
      by blast
  qed
  have named: "\<forall>r\<in>set (fst (fst (GetTagListByName tr name limit hasReserved w))).
           sql_like (name @ ''%'') (SlugName r)
           \<and> (wildcard_free name \<longrightarrow> prefix name (SlugName r))"
    if n: "name \<noteq> []"
  proof
    fix r assume "r \<in> set (fst (fst (GetTagListByName tr name limit hasReserved w)))"
    from GetTagListByName_row [OF this] n obtain t where
      r: "r = read_of tr w t" and l: "sql_like (name @ ''%'') (SlugName t)" by auto
    from r have "SlugName r = SlugName t" by (simp add: read_of_def)
    with l show "sql_like (name @ ''%'') (SlugName r)
           \<and> (wildcard_free name \<longrightarrow> prefix name (SlugName r))"
      by (auto simp: sql_like_prefix)
  qed
  from short sorted rows named show ?thesis by blast
qed

text \<open>
  The claim as stated fails twice: where tags are not required the rows returned for
  the empty name carry recommend = false, and the name \<^verbatim>\<open>_\<close> returns a tag of which
  it is no prefix.
\<close>

theorem GetTagListByName_not_literal:
  "map (\<lambda>t. (SlugName t, Recommend t))
     (fst (fst (GetTagListByName repo_tags_optional [] 5 False example_world)))
     = [(''ab'', False), (''ada'', False), (''go'', False)]
   \<and> map SlugName (fst (fst (GetTagListByName example_repo ''_'' 5 True example_world)))
       = [''golang'']
   \<and> \<not> prefix ''_'' ''golang''"
  by code_simp

theorem GetTagListByName_selection_witness:
  "map (\<lambda>t. (SlugName t, Recommend t))
     (fst (fst (GetTagListByName example_repo [] 5 False example_world)))
     = [(''ab'', True), (''ada'', True), (''go'', True)]
   \<and> int (length (fst (fst (GetTagListByName example_repo [] 5 False example_world)))) \<le> 5
   \<and> sorted_wrt (\<lambda>a b. SlugName a \<le> SlugName b)
        (fst (fst (GetTagListByName example_repo [] 5 False example_world)))
   \<and> list_all (\<lambda>r. \<not> Reserved r \<and> Status r = entity_TagStatusAvailable example_repo
                   \<and> Recommend r)
        (fst (fst (GetTagListByName example_repo [] 5 False example_world)))
   \<and> ''gol'' \<noteq> [] \<and> wildcard_free ''gol''
   \<and> map SlugName (fst (fst (GetTagListByName example_repo ''gol'' 5 False example_world)))
       = [''golang'']
   \<and> list_all (\<lambda>r. sql_like (''gol'' @ ''%'') (SlugName r) \<and> prefix ''gol'' (SlugName r))
        (fst (fst (GetTagListByName example_repo ''gol'' 5 False example_world)))"
proof -
  have rows: "map (\<lambda>t. (SlugName t, Recommend t))
     (fst (fst (GetTagListByName example_repo [] 5 False example_world)))
     = [(''ab'', True), (''ada'', True), (''go'', True)]"
    "map SlugName (fst (fst (GetTagListByName example_repo ''gol'' 5 False example_world)))
       = [''golang'']"
    by code_simp+
  have name: "''gol'' \<noteq> []" "wildcard_free ''gol''"
    by (simp_all add: wildcard_free_def)
  have cfg: "siteInfoService_GetSiteWrite example_repo = Inr \<lparr>RequiredTag = True\<rparr>"
    by (simp add: example_repo_def)
  note inst = GetTagListByName_selection [of example_repo example_world "''gol''" 5 False]
  note empty = inst [THEN conjunct1]
  note short = empty [THEN conjunct1]
  note sorted = empty [THEN conjunct2, THEN conjunct1]
  from empty [THEN conjunct2, THEN conjunct2] cfg
  have selected: "list_all (\<lambda>r. \<not> Reserved r \<and> Status r = entity_TagStatusAvailable example_repo
                   \<and> Recommend r)
        (fst (fst (GetTagListByName example_repo [] 5 False example_world)))"
    by (simp add: list_all_iff)
  from inst [THEN conjunct2] name
  have named: "list_all (\<lambda>r. sql_like (''gol'' @ ''%'') (SlugName r) \<and> prefix ''gol'' (SlugName r))
        (fst (fst (GetTagListByName example_repo ''gol'' 5 False example_world)))"
    by (simp add: list_all_iff)
  from rows(1) short sorted selected name rows(2) named show ?thesis by (intro conjI)
qed

text \<open>
  C5. A row that \<open>GetTagPage\<close> returns is never a synonym and never deleted, for
  every filter and sort mode. When the filter has a non-empty slug name, the slug name
  or the display name of every returned row matches it as a pattern: the value itself
  when it starts or ends with \<^verbatim>\<open>%\<close>, otherwise the value between two \<^verbatim>\<open>%\<close>, so
  that a value without \<^verbatim>\<open>%\<close> and \<^verbatim>\<open>_\<close> is a substring of one of the two names.
\<close>

theorem GetTagPage_selection:
  assumes "entity_TagStatusDeleted tr \<noteq> entity_TagStatusAvailable tr"
  shows "\<forall>r\<in>set (fst (fst (GetTagPage tr page pageSize tag queryCond w))).
           MainTagID r = 0 \<and> Status r \<noteq> entity_TagStatusDeleted tr
           \<and> (SlugName tag \<noteq> [] \<longrightarrow>
                (sql_like (like_arg (SlugName tag)) (SlugName r)
                 \<or> sql_like (like_arg (SlugName tag)) (DisplayName r))
                \<and> (wildcard_free (SlugName tag) \<longrightarrow>
                     sublist (SlugName tag) (SlugName r)
                     \<or> sublist (SlugName tag) (DisplayName r)))"
proof
  fix r assume "r \<in> set (fst (fst (GetTagPage tr page pageSize tag queryCond w)))"
  from GetTagPage_row [OF this] obtain t where r: "r = read_of tr w t"
    and p: "Status t = entity_TagStatusAvailable tr" "MainTagID t = 0"
      "SlugName tag \<noteq> [] \<longrightarrow>
         sql_like (like_arg (SlugName tag)) (SlugName t)
         \<or> sql_like (like_arg (SlugName tag)) (DisplayName t)"
    by blast
  from r have same: "MainTagID r = MainTagID t" "Status r = Status t"
    "SlugName r = SlugName t" "DisplayName r = DisplayName t"
    by (simp_all add: read_of_def)
  have "sublist (SlugName tag) (SlugName t) \<or> sublist (SlugName tag) (DisplayName t)"
    if "SlugName tag \<noteq> []" "wildcard_free (SlugName tag)"
    using that p(3) by (auto simp: like_arg_wildcard_free sql_like_infix)
  with p assms show "MainTagID r = 0 \<and> Status r \<noteq> entity_TagStatusDeleted tr
           \<and> (SlugName tag \<noteq> [] \<longrightarrow>
                (sql_like (like_arg (SlugName tag)) (SlugName r)
                 \<or> sql_like (like_arg (SlugName tag)) (DisplayName r))
                \<and> (wildcard_free (SlugName tag) \<longrightarrow>
                     sublist (SlugName tag) (SlugName r)
                     \<or> sublist (SlugName tag) (DisplayName r)))"
    unfolding same by auto
qed

theorem GetTagPage_selection_witness:
  "entity_TagStatusDeleted example_repo \<noteq> entity_TagStatusAvailable example_repo
   \<and> SlugName (Tag_zero\<lparr>SlugName := ''o''\<rparr>) = ''o''
   \<and> wildcard_free ''o''
   \<and> map SlugName (fst (fst (GetTagPage example_repo 1 10 (Tag_zero\<lparr>SlugName := ''o''\<rparr>)
        ''name'' example_world))) = [''go'', ''golang'']
   \<and> list_all (\<lambda>r. MainTagID r = 0 \<and> Status r \<noteq> entity_TagStatusDeleted example_repo
                   \<and> (sublist ''o'' (SlugName r) \<or> sublist ''o'' (DisplayName r)))
        (fst (fst (GetTagPage example_repo 1 10 (Tag_zero\<lparr>SlugName := ''o''\<rparr>)
          ''name'' example_world)))"
proof -
  have codes: "entity_TagStatusDeleted example_repo \<noteq> entity_TagStatusAvailable example_repo"
    by (simp add: example_repo_def)
  have filter: "SlugName (Tag_zero\<lparr>SlugName := ''o''\<rparr>) = ''o''" by simp
  have free: "wildcard_free ''o''" by (simp add: wildcard_free_def)
  have rows: "map SlugName (fst (fst (GetTagPage example_repo 1 10 (Tag_zero\<lparr>SlugName := ''o''\<rparr>)
        ''name'' example_world))) = [''go'', ''golang'']"
    by code_simp
  from GetTagPage_selection [OF codes, of 1 10 "Tag_zero\<lparr>SlugName := ''o''\<rparr>" "''name''"
      example_world] free
  have selected: "list_all (\<lambda>r. MainTagID r = 0 \<and> Status r \<noteq> entity_TagStatusDeleted example_repo
                   \<and> (sublist ''o'' (SlugName r) \<or> sublist ''o'' (DisplayName r)))
        (fst (fst (GetTagPage example_repo 1 10 (Tag_zero\<lparr>SlugName := ''o''\<rparr>)
          ''name'' example_world)))"
    unfolding filter by (simp add: list_all_iff)
  from codes filter free rows selected show ?thesis by (intro conjI)
qed

text \<open>
  C6. On a working engine, with a deleted code that is neither zero nor the available
  code, \<open>RemoveTag\<close> returns no error, sets the status of every row with the given
  id to deleted, changes no other column of any row and removes no row. Afterwards
  \<open>GetTagByID\<close> reports the tag as absent, \<open>GetTagBySlugName\<close> finds no tag
  with that id, and no listing restricted to available status returns a row with that
  id.
\<close>

theorem RemoveTag_soft_deletes:
  assumes "data_DB_error tr = None"
    and "entity_TagStatusDeleted tr \<noteq> 0"
    and "entity_TagStatusDeleted tr \<noteq> entity_TagStatusAvailable tr"
    and "w' = snd (RemoveTag tr tagID w)"
  shows "RemoveTag tr tagID w
           = (None, w\<lparr>tags := map (\<lambda>t. if ID t = tagID
                                        then t\<lparr>Status := entity_TagStatusDeleted tr\<rparr> else t)
                                  (tags w)\<rparr>)
    \<and> \<not> fst (snd (fst (GetTagByID tr tagID w')))
    \<and> (\<forall>t err. fst (GetTagBySlugName tr slugName w') = (Some t, True, err) \<longrightarrow> ID t \<noteq> tagID)
    \<and> (\<forall>t\<in>set (fst (fst (GetTagListByIDs tr ids w'))). ID t \<noteq> tagID)
    \<and> (\<forall>t\<in>set (fst (fst (GetTagListByName tr name limit hasReserved w'))). ID t \<noteq> tagID)
    \<and> (\<forall>t\<in>set (fst (fst (GetTagList tr tag w'))). ID t \<noteq> tagID)
    \<and> (\<forall>t\<in>set (fst (fst (GetTagPage tr page pageSize tag queryCond w'))). ID t \<noteq> tagID)"
proof -
  note effect = RemoveTag_effect [OF assms(1,2), of tagID w]
  from effect assms(4) have stored: "tags w' = map (\<lambda>t. if ID t = tagID
      then t\<lparr>Status := entity_TagStatusDeleted tr\<rparr> else t) (tags w)"
    by simp
  have gone: "Status t \<noteq> entity_TagStatusAvailable tr" if "t \<in> set (tags w')" "ID t = tagID" for t
  proof -
    from that(1) obtain t0 where "t0 \<in> set (tags w)"
      and t: "t = (if ID t0 = tagID then t0\<lparr>Status := entity_TagStatusDeleted tr\<rparr> else t0)"
      unfolding stored by auto
    with that(2) have "t = t0\<lparr>Status := entity_TagStatusDeleted tr\<rparr>"
      by (cases "ID t0 = tagID") simp_all
    with assms(3) show ?thesis by simp
  qed
  have other: "ID r \<noteq> tagID"
    if "t \<in> set (tags w')" "r = read_of tr w' t" "Status t = entity_TagStatusAvailable tr"
    for r t
  proof
    assume "ID r = tagID"
    with that(2) have "ID t = tagID" by (simp add: read_of_def split: if_splits)
    from gone [OF that(1) this] that(3) show False by simp
  qed
  have byid: "\<not> fst (snd (fst (GetTagByID tr tagID w')))"
    by (rule GetTagByID_absent) (simp add: gone)
  have slug: "\<forall>t err. fst (GetTagBySlugName tr slugName w') = (Some t, True, err)
                \<longrightarrow> ID t \<noteq> tagID"
  proof (intro allI impI)
    fix r err assume "fst (GetTagBySlugName tr slugName w') = (Some r, True, err)"
    from GetTagBySlugName_found [OF this] obtain t where "t \<in> set (tags w')"
      "r = read_of tr w' t" "Status t = entity_TagStatusAvailable tr" by blast
    then show "ID r \<noteq> tagID" by (rule other)
  qed
  have ids: "\<forall>t\<in>set (fst (fst (GetTagListByIDs tr ids w'))). ID t \<noteq> tagID"
  proof
    fix r assume "r \<in> set (fst (fst (GetTagListByIDs tr ids w')))"
    from GetTagListByIDs_row [OF this] obtain t where "t \<in> set (tags w')"
      "r = read_of tr w' t" "Status t = entity_TagStatusAvailable tr" by blast
    then show "ID r \<noteq> tagID" by (rule other)
  qed
  have byname: "\<forall>t\<in>set (fst (fst (GetTagListByName tr name limit hasReserved w'))).
                  ID t \<noteq> tagID"
  proof
    fix r assume "r \<in> set (fst (fst (GetTagListByName tr name limit hasReserved w')))"
    from GetTagListByName_row [OF this] obtain t where "t \<in> set (tags w')"
      "r = read_of tr w' t" "Status t = entity_TagStatusAvailable tr" by blast
    then show "ID r \<noteq> tagID" by (rule other)
  qed
  have list: "\<forall>t\<in>set (fst (fst (GetTagList tr tag w'))). ID t \<noteq> tagID"
  proof
    fix r assume "r \<in> set (fst (fst (GetTagList tr tag w')))"
    from GetTagList_row [OF this] obtain t where "t \<in> set (tags w')"
      "r = read_of tr w' t" "Status t = entity_TagStatusAvailable tr" by blast
    then show "ID r \<noteq> tagID" by (rule other)
  qed
  have page: "\<forall>t\<in>set (fst (fst (GetTagPage tr page pageSize tag queryCond w'))).
                ID t \<noteq> tagID"
  proof
    fix r assume "r \<in> set (fst (fst (GetTagPage tr page pageSize tag queryCond w')))"
    from GetTagPage_row [OF this] obtain t where "t \<in> set (tags w')"
      "r = read_of tr w' t" "Status t = entity_TagStatusAvailable tr" by blast
    then show "ID r \<noteq> tagID" by (rule other)
  qed
  from effect byid slug ids byname list page show ?thesis by (intro conjI)
qed

theorem RemoveTag_soft_deletes_witness:
  "data_DB_error example_repo = None
   \<and> entity_TagStatusDeleted example_repo \<noteq> 0
   \<and> entity_TagStatusDeleted example_repo \<noteq> entity_TagStatusAvailable example_repo
   \<and> fst (snd (fst (GetTagByID example_repo ''1'' example_world)))
   \<and> RemoveTag example_repo ''1'' example_world
       = (None, example_world\<lparr>tags :=
            [tag_go\<lparr>Status := 10\<rparr>, tag_golang, tag_rust, tag_ab, tag_ada]\<rparr>)
   \<and> \<not> fst (snd (fst (GetTagByID example_repo ''1''
            (snd (RemoveTag example_repo ''1'' example_world)))))
   \<and> map ID (fst (fst (GetTagListByIDs example_repo [''1'', ''2'']
        (snd (RemoveTag example_repo ''1'' example_world))))) = [''2'']
   \<and> list_all (\<lambda>t. ID t \<noteq> ''1'')
        (fst (fst (GetTagListByIDs example_repo [''1'', ''2'']
          (snd (RemoveTag example_repo ''1'' example_world)))))"
proof -
  have engine: "data_DB_error example_repo = None"
    and codes: "entity_TagStatusDeleted example_repo \<noteq> 0"
      "entity_TagStatusDeleted example_repo \<noteq> entity_TagStatusAvailable example_repo"
      "entity_TagStatusDeleted example_repo = 10"
    by (simp_all add: example_repo_def)
  have before: "fst (snd (fst (GetTagByID example_repo ''1'' example_world)))"
    by code_simp
  have stored: "map (\<lambda>t. if ID t = ''1'' then t\<lparr>Status := 10\<rparr> else t) (tags example_world)
      = [tag_go\<lparr>Status := 10\<rparr>, tag_golang, tag_rust, tag_ab, tag_ada]"
    by (simp add: example_world_def tag_go_def tag_golang_def tag_rust_def tag_ab_def
          tag_ada_def Tag_zero_def)
  have after: "map ID (fst (fst (GetTagListByIDs example_repo [''1'', ''2'']
        (snd (RemoveTag example_repo ''1'' example_world))))) = [''2'']"
    by code_simp
  note inst = RemoveTag_soft_deletes [OF engine codes(1,2) refl, of "''1''" example_world
      "[]" "[''1'', ''2'']" "[]" 5 False Tag_zero 1 10 "[]"]
  from inst [THEN conjunct1] have removed: "RemoveTag example_repo ''1'' example_world
       = (None, example_world\<lparr>tags :=
            [tag_go\<lparr>Status := 10\<rparr>, tag_golang, tag_rust, tag_ab, tag_ada]\<rparr>)"
    unfolding codes(3) stored .
  note absent = inst [THEN conjunct2, THEN conjunct1]
  from inst [THEN conjunct2, THEN conjunct2, THEN conjunct2, THEN conjunct1]
  have unlisted: "list_all (\<lambda>t. ID t \<noteq> ''1'')
        (fst (fst (GetTagListByIDs example_repo [''1'', ''2'']
          (snd (RemoveTag example_repo ''1'' example_world)))))"
    by (simp add: list_all_iff)
  from engine codes(1,2) before removed absent after unlisted show ?thesis
    by (intro conjI)
qed

text \<open>
  C7. On a working engine \<open>UpdateTagQuestionCount\<close> returns no error and writes
  the given count, zero included, into the question-count column of every row with
  the given id; no other column and no other row changes.
\<close>

theorem UpdateTagQuestionCount_writes_count:
  assumes "data_DB_error tr = None"
  shows "UpdateTagQuestionCount tr tagID questionCount w
           = (None, w\<lparr>tags := map (\<lambda>t. if ID t = tagID
                                        then t\<lparr>QuestionCount := questionCount\<rparr> else t)
                                  (tags w)\<rparr>)
    \<and> UpdateTagQuestionCount tr tagID 0 w
           = (None, w\<lparr>tags := map (\<lambda>t. if ID t = tagID then t\<lparr>QuestionCount := 0\<rparr> else t)
                                  (tags w)\<rparr>)"
  using UpdateTagQuestionCount_effect [OF assms] by simp

theorem UpdateTagQuestionCount_writes_count_witness:
  "data_DB_error example_repo = None
   \<and> map (\<lambda>t. (ID t, QuestionCount t)) (tags example_world)
       = [(''1'', 3), (''2'', 0), (''3'', 0), (''4'', 0), (''5'', 7)]
   \<and> UpdateTagQuestionCount example_repo ''5'' 0 example_world
       = (None, example_world\<lparr>tags :=
            [tag_go, tag_golang, tag_rust, tag_ab, tag_ada\<lparr>QuestionCount := 0\<rparr>]\<rparr>)"
proof -
  have engine: "data_DB_error example_repo = None" by (simp add: example_repo_def)
  have before: "map (\<lambda>t. (ID t, QuestionCount t)) (tags example_world)
       = [(''1'', 3), (''2'', 0), (''3'', 0), (''4'', 0), (''5'', 7)]"
    by code_simp
  have stored: "map (\<lambda>t. if ID t = ''5'' then t\<lparr>QuestionCount := 0\<rparr> else t) (tags example_world)
      = [tag_go, tag_golang, tag_rust, tag_ab, tag_ada\<lparr>QuestionCount := 0\<rparr>]"
    by (simp add: example_world_def tag_go_def tag_golang_def tag_rust_def tag_ab_def
          tag_ada_def Tag_zero_def)
  from UpdateTagQuestionCount_writes_count [OF engine, of "''5''" 0 example_world] stored
  have "UpdateTagQuestionCount example_repo ''5'' 0 example_world
       = (None, example_world\<lparr>tags :=
            [tag_go, tag_golang, tag_rust, tag_ab, tag_ada\<lparr>QuestionCount := 0\<rparr>]\<rparr>)"
    by simp
  with engine before show ?thesis by blast
qed

text \<open>
  C8, as amended. On a working engine \<open>GetRecommendTagList\<close> returns every stored
  tag flagged recommended and \<open>GetReservedTagList\<close> every stored tag flagged
  reserved, in ascending order of slug name and whatever their status, so that a
  deleted tag with the flag set is included. They are not alone in this:
  \<open>GetTagListByNames\<close> returns every stored tag with one of the given slug names,
  whatever its status. The listings \<open>GetTagListByIDs\<close>, \<open>GetTagListByName\<close>,
  \<open>GetTagList\<close> and \<open>GetTagPage\<close> return available rows only.
\<close>

theorem listings_and_status:
  assumes "data_DB_error tr = None"
  shows "fst (GetRecommendTagList tr w)
           = (mask_recommend (fst (tagRecommendStatus tr w))
                (sort_rows [(Col_slug_name, ASC)] (filter Recommend (tags w))), None)
    \<and> fst (GetReservedTagList tr w)
           = (mask_recommend (fst (tagRecommendStatus tr w))
                (sort_rows [(Col_slug_name, ASC)] (filter Reserved (tags w))), None)
    \<and> fst (GetTagListByNames tr names w)
           = (mask_recommend (fst (tagRecommendStatus tr w))
                (sort_rows [(Col_recommend, DESC), (Col_reserved, DESC), (Col_id, DESC)]
                   (filter (\<lambda>t. SlugName t \<in> set names) (tags w))), None)
    \<and> (\<forall>t\<in>set (tags w). Recommend t \<longrightarrow>
          (\<exists>r\<in>set (fst (fst (GetRecommendTagList tr w))). ID r = ID t \<and> Status r = Status t))
    \<and> (\<forall>t\<in>set (tags w). Reserved t \<longrightarrow>
          (\<exists>r\<in>set (fst (fst (GetReservedTagList tr w))). ID r = ID t \<and> Status r = Status t))
    \<and> (\<forall>r\<in>set (fst (fst (GetTagListByIDs tr ids w))). Status r = entity_TagStatusAvailable tr)
    \<and> (\<forall>r\<in>set (fst (fst (GetTagListByName tr name limit hasReserved w))).
          Status r = entity_TagStatusAvailable tr)
    \<and> (\<forall>r\<in>set (fst (fst (GetTagList tr tag w))). Status r = entity_TagStatusAvailable tr)
    \<and> (\<forall>r\<in>set (fst (fst (GetTagPage tr page pageSize tag queryCond w))).
          Status r = entity_TagStatusAvailable tr)"
proof -
  note recommend = GetRecommendTagList_rows [OF assms, of w]
  note reserved = GetReservedTagList_rows [OF assms, of w]
  note names = GetTagListByNames_rows [OF assms, of names w]
  have keep: "\<And>t. Status (read_of tr w t) = Status t" by (simp add: read_of_def)
  have masked: "\<exists>r\<in>set (mask_recommend st rows). ID r = ID t \<and> Status r = Status t"
    if "t \<in> set rows" for st rows and t :: Tag
    using that by (cases st) (auto simp: mask_recommend_def)
  have inc1: "\<forall>t\<in>set (tags w). Recommend t \<longrightarrow>
          (\<exists>r\<in>set (fst (fst (GetRecommendTagList tr w))). ID r = ID t \<and> Status r = Status t)"
    unfolding recommend by (auto intro!: masked simp: set_sort_rows)
  have inc2: "\<forall>t\<in>set (tags w). Reserved t \<longrightarrow>
          (\<exists>r\<in>set (fst (fst (GetReservedTagList tr w))). ID r = ID t \<and> Status r = Status t)"
    unfolding reserved by (auto intro!: masked simp: set_sort_rows)
  have ids: "\<forall>r\<in>set (fst (fst (GetTagListByIDs tr ids w))).
               Status r = entity_TagStatusAvailable tr"
  proof
    fix r assume "r \<in> set (fst (fst (GetTagListByIDs tr ids w)))"
    from GetTagListByIDs_row [OF this] keep
    show "Status r = entity_TagStatusAvailable tr" by auto
  qed
  have byname: "\<forall>r\<in>set (fst (fst (GetTagListByName tr name limit hasReserved w))).
          Status r = entity_TagStatusAvailable tr"
  proof
    fix r assume "r \<in> set (fst (fst (GetTagListByName tr name limit hasReserved w)))"
    from GetTagListByName_row [OF this] keep
    show "Status r = entity_TagStatusAvailable tr" by auto
  qed
  have list: "\<forall>r\<in>set (fst (fst (GetTagList tr tag w))). Status r = entity_TagStatusAvailable tr"
  proof
    fix r assume "r \<in> set (fst (fst (GetTagList tr tag w)))"
    from GetTagList_row [OF this] keep
    show "Status r = entity_TagStatusAvailable tr" by auto
  qed
  have page: "\<forall>r\<in>set (fst (fst (GetTagPage tr page pageSize tag queryCond w))).
          Status r = entity_TagStatusAvailable tr"
  proof
    fix r assume "r \<in> set (fst (fst (GetTagPage tr page pageSize tag queryCond w)))"
    from GetTagPage_row [OF this] keep
    show "Status r = entity_TagStatusAvailable tr" by auto
  qed
  from recommend reserved names inc1 inc2 ids byname list page show ?thesis by blast
qed

text \<open>
  The claim as stated fails on its last part: \<open>GetTagListByNames\<close> is another listing
  that returns a deleted tag.
\<close>

theorem GetTagListByNames_returns_deleted:
  "entity_TagStatusDeleted example_repo = 10
   \<and> map (\<lambda>t. (ID t, SlugName t, Status t))
        (fst (fst (GetTagListByNames example_repo [''rust'', ''go''] example_world)))
       = [(''3'', ''rust'', 10), (''1'', ''go'', 1)]"
  by code_simp

theorem listings_and_status_witness:
  "data_DB_error example_repo = None
   \<and> tag_rust \<in> set (tags example_world) \<and> Recommend tag_rust \<and> Reserved tag_rust
   \<and> Status tag_rust = entity_TagStatusDeleted example_repo
   \<and> map (\<lambda>t. (ID t, Status t)) (fst (fst (GetRecommendTagList example_repo example_world)))
       = [(''4'', 1), (''5'', 1), (''1'', 1), (''3'', 10)]
   \<and> map (\<lambda>t. (ID t, Status t)) (fst (fst (GetReservedTagList example_repo example_world)))
       = [(''3'', 10)]
   \<and> (\<exists>r\<in>set (fst (fst (GetRecommendTagList example_repo example_world))).
         ID r = ID tag_rust \<and> Status r = Status tag_rust)
   \<and> (\<exists>r\<in>set (fst (fst (GetReservedTagList example_repo example_world))).
         ID r = ID tag_rust \<and> Status r = Status tag_rust)
   \<and> map ID (fst (fst (GetTagListByIDs example_repo [''1'', ''3''] example_world))) = [''1'']
   \<and> list_all (\<lambda>r. Status r = entity_TagStatusAvailable example_repo)
        (fst (fst (GetTagListByIDs example_repo [''1'', ''3''] example_world)))"
proof -
  have engine: "data_DB_error example_repo = None" by (simp add: example_repo_def)
  have rust: "tag_rust \<in> set (tags example_world)" "Recommend tag_rust" "Reserved tag_rust"
    "Status tag_rust = entity_TagStatusDeleted example_repo"
    by (simp_all add: example_world_def tag_rust_def example_repo_def)
  have rows:
    "map (\<lambda>t. (ID t, Status t)) (fst (fst (GetRecommendTagList example_repo example_world)))
       = [(''4'', 1), (''5'', 1), (''1'', 1), (''3'', 10)]"
    "map (\<lambda>t. (ID t, Status t)) (fst (fst (GetReservedTagList example_repo example_world)))
       = [(''3'', 10)]"
    "map ID (fst (fst (GetTagListByIDs example_repo [''1'', ''3''] example_world))) = [''1'']"
    by code_simp+
  note inst = listings_and_status [OF engine, of example_world "[]" "[''1'', ''3'']" "[]" 5
      False Tag_zero 1 10 "[]"]
  note rest = inst [THEN conjunct2, THEN conjunct2, THEN conjunct2]
  from rest [THEN conjunct1] rust(1,2)
  have inc1: "\<exists>r\<in>set (fst (fst (GetRecommendTagList example_repo example_world))).
         ID r = ID tag_rust \<and> Status r = Status tag_rust"
    by blast
  from rest [THEN conjunct2, THEN conjunct1] rust(1,3)
  have inc2: "\<exists>r\<in>set (fst (fst (GetReservedTagList example_repo example_world))).
         ID r = ID tag_rust \<and> Status r = Status tag_rust"
    by blast
  from rest [THEN conjunct2, THEN conjunct2, THEN conjunct1]
  have ids: "list_all (\<lambda>r. Status r = entity_TagStatusAvailable example_repo)
        (fst (fst (GetTagListByIDs example_repo [''1'', ''3''] example_world)))"
    by (simp add: list_all_iff)
  from engine rust rows(1,2) inc1 inc2 rows(3) ids show ?thesis by (intro conjI)
qed

text \<open>
  C9. \<open>GetTagPage\<close> writes to the filter it is handed: when the slug name of the
  filter is not empty on entry, the caller finds it empty afterwards, with every other
  field of the filter as it was.
\<close>

theorem GetTagPage_clears_filter_slug_name:
  assumes "SlugName tag \<noteq> []"
  shows "fst (snd (GetTagPage tr page pageSize tag queryCond w)) = tag\<lparr>SlugName := []\<rparr>
    \<and> SlugName (fst (snd (GetTagPage tr page pageSize tag queryCond w))) = []
    \<and> fst (snd (GetTagPage tr page pageSize tag queryCond w)) \<noteq> tag"
proof -
  from assms have f: "fst (snd (GetTagPage tr page pageSize tag queryCond w))
      = tag\<lparr>SlugName := []\<rparr>"
    by (simp add: GetTagPage_filter)
  have "SlugName (tag\<lparr>SlugName := []\<rparr>) \<noteq> SlugName tag" using assms by simp
  then have "tag\<lparr>SlugName := []\<rparr> \<noteq> tag" by metis
  with f show ?thesis by simp
qed

theorem GetTagPage_clears_filter_slug_name_witness:
  "SlugName (Tag_zero\<lparr>SlugName := ''o'', DisplayName := ''O''\<rparr>) \<noteq> []
   \<and> fst (snd (GetTagPage example_repo 1 10 (Tag_zero\<lparr>SlugName := ''o'', DisplayName := ''O''\<rparr>)
        ''name'' example_world)) = Tag_zero\<lparr>DisplayName := ''O''\<rparr>"
proof -
  have filter: "SlugName (Tag_zero\<lparr>SlugName := ''o'', DisplayName := ''O''\<rparr>) \<noteq> []" by simp
  have cleared: "Tag_zero\<lparr>SlugName := ''o'', DisplayName := ''O'', SlugName := []\<rparr>
      = Tag_zero\<lparr>DisplayName := ''O''\<rparr>"
    by (simp add: Tag_zero_def)
  from GetTagPage_clears_filter_slug_name [OF filter, of example_repo 1 10 "''name''"
      example_world] filter cleared
  show ?thesis by simp
qed

end
